theory Spec2Isabelle
  imports Complex_Main "HOL-Library.Sublist" "HOL-Library.Product_Lexorder"
begin

section \<open>Data model\<close>

text \<open>
  The four tables of the migration (utilisateurs, listes, taches,
  historique_modifications) are lists of rows, in table order. Identifiers stand for
  well-formed UUIDs and are natural numbers here; timestamps are epoch milliseconds and
  due dates (DATEONLY) are day numbers. The handlers' catch blocks, which answer 500
  when the persistence layer raises, are modelled where the schema makes an INSERT fail
  (a primary key or a unique email that is already there, a foreign key that is no row),
  where the \<open>validate\<close> rules of the Tache model refuse a new task, and where the
  database refuses a negative LIMIT or OFFSET. The \<open>validate\<close> rules of the other models
  and those applied to an update repeat checks of the routes and are not modelled; a
  database that is down or an identifier that is not a UUID is outside this model.
\<close>

type_synonym uuid = nat
type_synonym horodatage = int
type_synonym jour = int

datatype statut = A_FAIRE | EN_COURS | TERMINEE

datatype priorite = BASSE | MOYENNE | HAUTE | URGENTE

record utilisateur =
  u_id :: uuid
  email :: string
  nom_affichage :: string
  mot_de_passe_hash :: string
  u_date_creation :: horodatage
  actif :: bool
  tentatives_echec :: int

record liste =
  l_id :: uuid
  nom :: string
  couleur :: string
  ordre :: int
  l_utilisateur_id :: uuid

record tache =
  t_id :: uuid
  titre :: string
  description :: "string option"
  statut :: statut
  priorite :: priorite
  date_echeance :: "jour option"
  date_creation :: horodatage
  date_completion :: "horodatage option"
  utilisateur_id :: uuid
  liste_id :: "uuid option"

record historique_modification =
  h_id :: uuid
  tache_id :: uuid
  ancien_statut :: statut
  nouveau_statut :: statut
  date_modification :: horodatage

text \<open>
  Every statement a repository sends that writes is also appended to a journal, so that
  the order of the writes of one request can be stated.
\<close>

datatype ecriture =
    INSERT_utilisateur uuid
  | UPDATE_utilisateur uuid
  | INSERT_liste uuid
  | UPDATE_liste uuid
  | DELETE_liste uuid
  | INSERT_tache uuid
  | UPDATE_tache uuid
  | UPDATE_taches_liste_null uuid
  | DELETE_tache uuid
  | INSERT_historique uuid statut statut

record monde =
  utilisateurs :: "utilisateur list"
  listes :: "liste list"
  taches :: "tache list"
  historique :: "historique_modification list"
  journal :: "ecriture list"

text \<open>What a request takes from its surroundings: the clock, the next UUIDV4 and the
  JWT secret of the process environment.\<close>

record env =
  maintenant :: horodatage
  uuidv4 :: uuid
  jwtSecret :: string

subsection \<open>config/appConfig\<close>

definition jwtExpiration :: int where
  \<comment> \<open>the string 24h, in seconds\<close>
  "jwtExpiration = 24 * 60 * 60"

definition bcryptSaltRounds :: nat where
  "bcryptSaltRounds = 10"

definition maxLoginAttempts :: int where
  "maxLoginAttempts = 3"

definition defaultPageLimit :: int where
  "defaultPageLimit = 20"

definition defaultPage :: int where
  "defaultPage = 1"

subsection \<open>Responses\<close>

text \<open>
  A response is \<open>res.status(n).json({success, data | error})\<close>. The error messages of
  the source are named by constructors; \<open>Validation\<close> carries the first message of
  \<open>validationResult(req)\<close>.
\<close>

datatype erreur =
    Validation string
  | EmailDejaUtilise
  | IdentifiantsInvalides
  | CompteVerrouille
  | TacheNonTrouvee
  | AccesTacheNonAutorise
  | ListeNonTrouveeOuNonAutorisee
  | ListeNonTrouvee
  | AccesListeNonAutorise
  | ParametreRechercheRequis
  | ErreurInterne

record utilisateur_public =
  p_id :: uuid
  p_email :: string
  p_nom_affichage :: string
  p_date_creation :: horodatage

record jeton =
  j_id :: uuid
  j_email :: string
  iat :: int
  exp :: int
  j_secret :: string

record liste_resume =
  r_id :: uuid
  r_nom :: string
  r_couleur :: string

type_synonym tache_complete = "tache \<times> liste_resume option"

record compteurs =
  total :: int
  n_A_FAIRE :: int
  n_EN_COURS :: int
  n_TERMINEE :: int

record pagination =
  page :: int
  limit :: int
  pg_total :: int
  totalPages :: int

datatype message = TacheSupprimee | ListeSupprimee

datatype donnees =
    D_utilisateur utilisateur_public
  | D_connexion jeton utilisateur_public
  | D_tache "tache_complete option"
  | D_taches_page "tache_complete list" compteurs pagination
  | D_taches "tache_complete list"
  | D_liste "liste option"
  | D_message message

datatype corps = Succes donnees | Echec erreur

type_synonym reponse = "nat \<times> corps"

definition cles :: "donnees \<Rightarrow> string list" where
  \<comment> \<open>the keys of the \<open>data\<close> object of a response\<close>
  "cles d = (case d of
       D_utilisateur _ \<Rightarrow> [''utilisateur'']
     | D_connexion _ _ \<Rightarrow> [''token'', ''utilisateur'']
     | D_tache _ \<Rightarrow> [''tache'']
     | D_taches_page _ _ _ \<Rightarrow> [''taches'', ''compteurs'', ''pagination'']
     | D_taches _ \<Rightarrow> [''taches'']
     | D_liste _ \<Rightarrow> [''liste'']
     | D_message _ \<Rightarrow> [''message''])"

section \<open>repositories/utilisateurRepository\<close>

definition trouverParEmail :: "monde \<Rightarrow> string \<Rightarrow> utilisateur option" where
  "trouverParEmail m e = find (\<lambda>u. email u = e) (utilisateurs m)"

definition trouverParIdAvecMotDePasse :: "monde \<Rightarrow> uuid \<Rightarrow> utilisateur option" where
  "trouverParIdAvecMotDePasse m i = find (\<lambda>u. u_id u = i) (utilisateurs m)"

definition creer_utilisateur ::
  "env \<Rightarrow> string \<Rightarrow> string \<Rightarrow> string \<Rightarrow> monde \<Rightarrow> (utilisateur \<times> monde) option" where
  \<comment> \<open>\<open>Utilisateur.create\<close>: the model's defaults fill id, date_creation, actif and
      tentatives_echec; the statement fails on a primary key or an email already there\<close>
  "creer_utilisateur ev e n h m =
     (let u = \<lparr>u_id = uuidv4 ev, email = e, nom_affichage = n, mot_de_passe_hash = h,
                u_date_creation = maintenant ev, actif = True, tentatives_echec = 0\<rparr>
      in if uuidv4 ev \<in> set (map u_id (utilisateurs m)) \<or> e \<in> set (map email (utilisateurs m))
         then None
         else Some (u, m\<lparr>utilisateurs := utilisateurs m @ [u],
                         journal := journal m @ [INSERT_utilisateur (uuidv4 ev)]\<rparr>))"

definition incrementerTentativesEchec :: "uuid \<Rightarrow> monde \<Rightarrow> monde" where
  "incrementerTentativesEchec i m =
     m\<lparr>utilisateurs :=
         map (\<lambda>u. if u_id u = i then u\<lparr>tentatives_echec := tentatives_echec u + 1\<rparr> else u)
           (utilisateurs m),
       journal := journal m @ [UPDATE_utilisateur i]\<rparr>"

definition reinitialiserTentativesEchec :: "uuid \<Rightarrow> monde \<Rightarrow> monde" where
  "reinitialiserTentativesEchec i m =
     m\<lparr>utilisateurs :=
         map (\<lambda>u. if u_id u = i then u\<lparr>tentatives_echec := 0\<rparr> else u) (utilisateurs m),
       journal := journal m @ [UPDATE_utilisateur i]\<rparr>"

section \<open>controllers/authController\<close>

text \<open>
  bcrypt and jsonwebtoken are libraries: hashing and comparing are parameters, and a
  signed token is the record of what \<open>jwt.sign\<close> puts into it (the payload, the
  issue time in seconds, the expiry \<open>expiresIn\<close> seconds later, the secret it is
  signed with).
\<close>

record bcrypt =
  bcrypt_hash :: "string \<Rightarrow> nat \<Rightarrow> string"
  bcrypt_compare :: "string \<Rightarrow> string \<Rightarrow> bool"

definition jwt_sign :: "uuid \<Rightarrow> string \<Rightarrow> string \<Rightarrow> int \<Rightarrow> horodatage \<Rightarrow> jeton" where
  "jwt_sign i e secret expiresIn now =
     \<lparr>j_id = i, j_email = e, iat = now div 1000, exp = now div 1000 + expiresIn,
      j_secret = secret\<rparr>"

definition public :: "utilisateur \<Rightarrow> utilisateur_public" where
  "public u = \<lparr>p_id = u_id u, p_email = email u, p_nom_affichage = nom_affichage u,
               p_date_creation = u_date_creation u\<rparr>"

record corps_register =
  reg_email :: string
  reg_mot_de_passe :: string
  reg_nom_affichage :: string

record corps_login =
  log_email :: string
  log_mot_de_passe :: string

definition register ::
  "bcrypt \<Rightarrow> env \<Rightarrow> string list \<Rightarrow> corps_register \<Rightarrow> monde \<Rightarrow> reponse \<times> monde" where
  "register lib ev errors body m =
     (case errors of
        e # _ \<Rightarrow> ((400, Echec (Validation e)), m)
      | [] \<Rightarrow>
         (case trouverParEmail m (reg_email body) of
            Some existant \<Rightarrow> ((400, Echec EmailDejaUtilise), m)
          | None \<Rightarrow>
             (let motDePasseHash = bcrypt_hash lib (reg_mot_de_passe body) bcryptSaltRounds
              in case creer_utilisateur ev (reg_email body) (reg_nom_affichage body)
                        motDePasseHash m of
                   None \<Rightarrow> ((500, Echec ErreurInterne), m)
                 | Some (u, m') \<Rightarrow> ((201, Succes (D_utilisateur (public u))), m'))))"

definition login ::
  "bcrypt \<Rightarrow> env \<Rightarrow> string list \<Rightarrow> corps_login \<Rightarrow> monde \<Rightarrow> reponse \<times> monde" where
  "login lib ev errors body m =
     (case errors of
        e # _ \<Rightarrow> ((400, Echec (Validation e)), m)
      | [] \<Rightarrow>
         (case trouverParEmail m (log_email body) of
            None \<Rightarrow> ((401, Echec IdentifiantsInvalides), m)
          | Some u \<Rightarrow>
             if tentatives_echec u \<ge> maxLoginAttempts
             then ((423, Echec CompteVerrouille), m)
             else if \<not> bcrypt_compare lib (log_mot_de_passe body) (mot_de_passe_hash u)
             then
               (let m' = incrementerTentativesEchec (u_id u) m
                in case trouverParIdAvecMotDePasse m' (u_id u) of
                     None \<Rightarrow> ((500, Echec ErreurInterne), m')
                   | Some u' \<Rightarrow>
                      if tentatives_echec u' \<ge> maxLoginAttempts
                      then ((423, Echec CompteVerrouille), m')
                      else ((401, Echec IdentifiantsInvalides), m'))
             else
               (let m' = reinitialiserTentativesEchec (u_id u) m;
                    token = jwt_sign (u_id u) (email u) (jwtSecret ev) jwtExpiration
                              (maintenant ev)
                in ((200, Succes (D_connexion token (public u))), m'))))"

text \<open>
  The route of POST /register sanitises the body before the controller runs: the email
  goes through the validator library's \<open>normalizeEmail\<close> (a parameter here) and the
  display name is trimmed.
\<close>

definition estBlanc :: "char \<Rightarrow> bool" where
  \<comment> \<open>the white space and line terminators of \<open>String.prototype.trim\<close> below U+0100\<close>
  "estBlanc c = (c \<in> set [CHR 0x09, CHR 0x0A, CHR 0x0B, CHR 0x0C, CHR 0x0D, CHR 0x20, CHR 0xA0])"

definition trim :: "string \<Rightarrow> string" where
  "trim s = rev (dropWhile estBlanc (rev (dropWhile estBlanc s)))"

definition route_register ::
  "(string \<Rightarrow> string) \<Rightarrow> bcrypt \<Rightarrow> env \<Rightarrow> string list \<Rightarrow> corps_register \<Rightarrow> monde
     \<Rightarrow> reponse \<times> monde" where
  "route_register normalizeEmail lib ev errors body m =
     register lib ev errors
       (body\<lparr>reg_email := normalizeEmail (reg_email body),
             reg_nom_affichage := trim (reg_nom_affichage body)\<rparr>) m"

section \<open>repositories/listeRepository\<close>

definition trouverParId_liste :: "monde \<Rightarrow> uuid \<Rightarrow> liste option" where
  "trouverParId_liste m i = find (\<lambda>l. l_id l = i) (listes m)"


record donnees_maj_liste =
  dl_nom :: "string option"
  dl_couleur :: "string option"
  dl_ordre :: "int option"

definition appliquer_maj_liste :: "donnees_maj_liste \<Rightarrow> liste \<Rightarrow> liste" where
  "appliquer_maj_liste d l =
     l\<lparr>nom := (case dl_nom d of None \<Rightarrow> nom l | Some x \<Rightarrow> x),
       couleur := (case dl_couleur d of None \<Rightarrow> couleur l | Some x \<Rightarrow> x),
       ordre := (case dl_ordre d of None \<Rightarrow> ordre l | Some x \<Rightarrow> x)\<rparr>"

definition liste_sans_champ :: "donnees_maj_liste \<Rightarrow> bool" where
  \<comment> \<open>the object \<open>donneesMAJ\<close> has no key\<close>
  "liste_sans_champ d = (dl_nom d = None \<and> dl_couleur d = None \<and> dl_ordre d = None)"

definition mettreAJour_liste :: "uuid \<Rightarrow> donnees_maj_liste \<Rightarrow> monde \<Rightarrow> liste option \<times> monde" where
  \<comment> \<open>\<open>Liste.update\<close> sends no statement when there is no value to write\<close>
  "mettreAJour_liste i d m =
     (let m' = (if liste_sans_champ d then m
                else m\<lparr>listes := map (\<lambda>l. if l_id l = i then appliquer_maj_liste d l else l)
                                   (listes m),
                       journal := journal m @ [UPDATE_liste i]\<rparr>)
      in (trouverParId_liste m' i, m'))"

definition supprimer_liste :: "uuid \<Rightarrow> monde \<Rightarrow> monde" where
  \<comment> \<open>\<open>Liste.destroy\<close>; the foreign key taches.liste_id is ON DELETE SET NULL\<close>
  "supprimer_liste i m =
     m\<lparr>listes := filter (\<lambda>l. l_id l \<noteq> i) (listes m),
       taches := map (\<lambda>t. if liste_id t = Some i then t\<lparr>liste_id := None\<rparr> else t) (taches m),
       journal := journal m @ [DELETE_liste i]\<rparr>"

section \<open>repositories/tacheRepository\<close>

definition resume :: "liste \<Rightarrow> liste_resume" where
  "resume l = \<lparr>r_id = l_id l, r_nom = nom l, r_couleur = couleur l\<rparr>"

definition inclure_liste :: "monde \<Rightarrow> tache \<Rightarrow> tache_complete" where
  \<comment> \<open>\<open>include: [{model: Liste, as: 'liste', attributes: ['id', 'nom', 'couleur']}]\<close>\<close>
  "inclure_liste m t =
     (t, case liste_id t of None \<Rightarrow> None
         | Some l \<Rightarrow> map_option resume (trouverParId_liste m l))"

definition trouverParId_tache :: "monde \<Rightarrow> uuid \<Rightarrow> tache_complete option" where
  "trouverParId_tache m i = map_option (inclure_liste m) (find (\<lambda>t. t_id t = i) (taches m))"

record donnees_tache =
  dt_titre :: string
  dt_description :: "string option"
  dt_priorite :: priorite
  dt_date_echeance :: "jour option"
  dt_liste_id :: "uuid option"
  dt_statut :: statut
  dt_utilisateur_id :: uuid

definition creer_tache :: "env \<Rightarrow> donnees_tache \<Rightarrow> monde \<Rightarrow> (tache \<times> monde) option" where
  \<comment> \<open>\<open>Tache.create\<close>: the model's defaults fill id and date_creation, date_completion
      stays null; fails on the model's \<open>validate\<close> rules (a \<open>titre\<close> of 3 to 100
      characters, a \<open>description\<close> of at most 2000 when it is not null; \<open>isIn\<close> holds of
      every \<open>statut\<close> and \<open>priorite\<close> of the types here), on a primary key already there,
      on an owner or list that is no row\<close>
  "creer_tache ev d m =
     (let t = \<lparr>t_id = uuidv4 ev, titre = dt_titre d, description = dt_description d,
                statut = dt_statut d, priorite = dt_priorite d,
                date_echeance = dt_date_echeance d, date_creation = maintenant ev,
                date_completion = None, utilisateur_id = dt_utilisateur_id d,
                liste_id = dt_liste_id d\<rparr>
      in if length (dt_titre d) < 3 \<or> 100 < length (dt_titre d)
            \<or> (case dt_description d of None \<Rightarrow> False | Some x \<Rightarrow> 2000 < length x)
            \<or> uuidv4 ev \<in> set (map t_id (taches m))
            \<or> dt_utilisateur_id d \<notin> set (map u_id (utilisateurs m))
            \<or> (case dt_liste_id d of None \<Rightarrow> False | Some l \<Rightarrow> l \<notin> set (map l_id (listes m)))
         then None
         else Some (t, m\<lparr>taches := taches m @ [t],
                         journal := journal m @ [INSERT_tache (uuidv4 ev)]\<rparr>))"

definition nom_statut :: "statut \<Rightarrow> string" where
  "nom_statut s = (case s of A_FAIRE \<Rightarrow> ''A_FAIRE'' | EN_COURS \<Rightarrow> ''EN_COURS''
                   | TERMINEE \<Rightarrow> ''TERMINEE'')"

definition nom_priorite :: "priorite \<Rightarrow> string" where
  "nom_priorite p = (case p of BASSE \<Rightarrow> ''BASSE'' | MOYENNE \<Rightarrow> ''MOYENNE''
                     | HAUTE \<Rightarrow> ''HAUTE'' | URGENTE \<Rightarrow> ''URGENTE'')"

record options_liste =
  o_page :: int
  o_limit :: int
  o_statut :: "string option"
  o_priorite :: "string option"
  o_liste_id :: "uuid option"

definition vrai :: "string option \<Rightarrow> bool" where
  \<comment> \<open>truthiness of an optional string: neither undefined nor empty\<close>
  "vrai x = (case x of None \<Rightarrow> False | Some s \<Rightarrow> s \<noteq> [])"

definition filtre_where :: "uuid \<Rightarrow> options_liste \<Rightarrow> tache \<Rightarrow> bool" where
  "filtre_where uid opts t =
     (utilisateur_id t = uid
      \<and> (if vrai (o_statut opts) then Some (nom_statut (statut t)) = o_statut opts else True)
      \<and> (if vrai (o_priorite opts) then Some (nom_priorite (priorite t)) = o_priorite opts
         else True)
      \<and> (case o_liste_id opts of None \<Rightarrow> True | Some l \<Rightarrow> liste_id t = Some l))"

definition cle_tri :: "tache \<Rightarrow> bool \<times> jour \<times> horodatage" where
  \<comment> \<open>\<open>date_echeance IS NULL ASC, date_echeance ASC, date_creation DESC\<close>\<close>
  "cle_tri t = (date_echeance t = None,
                (case date_echeance t of None \<Rightarrow> 0 | Some d \<Rightarrow> d),
                - date_creation t)"

definition listerParUtilisateur ::
  "monde \<Rightarrow> uuid \<Rightarrow> options_liste \<Rightarrow> (tache_complete list \<times> int) option" where
  \<comment> \<open>\<open>Tache.findAndCountAll\<close>; the database refuses a negative LIMIT or OFFSET\<close>
  "listerParUtilisateur m uid opts =
     (let offset = (o_page opts - 1) * o_limit opts;
          trouvees = filter (filtre_where uid opts) (taches m)
      in if o_limit opts < 0 \<or> offset < 0 then None
         else Some (map (inclure_liste m)
                      (take (nat (o_limit opts)) (drop (nat offset) (sort_key cle_tri trouvees))),
                    int (length trouvees)))"

record donnees_maj =
  d_titre :: "string option"
  d_description :: "string option option"
  d_priorite :: "priorite option"
  d_date_echeance :: "jour option option"
  d_liste_id :: "uuid option option"
  d_statut :: "statut option"
  d_date_completion :: "horodatage option option"

definition appliquer_maj :: "donnees_maj \<Rightarrow> tache \<Rightarrow> tache" where
  "appliquer_maj d t =
     t\<lparr>titre := (case d_titre d of None \<Rightarrow> titre t | Some x \<Rightarrow> x),
       description := (case d_description d of None \<Rightarrow> description t | Some x \<Rightarrow> x),
       priorite := (case d_priorite d of None \<Rightarrow> priorite t | Some x \<Rightarrow> x),
       date_echeance := (case d_date_echeance d of None \<Rightarrow> date_echeance t | Some x \<Rightarrow> x),
       liste_id := (case d_liste_id d of None \<Rightarrow> liste_id t | Some x \<Rightarrow> x),
       statut := (case d_statut d of None \<Rightarrow> statut t | Some x \<Rightarrow> x),
       date_completion :=
         (case d_date_completion d of None \<Rightarrow> date_completion t | Some x \<Rightarrow> x)\<rparr>"

definition sans_champ :: "donnees_maj \<Rightarrow> bool" where
  \<comment> \<open>the object \<open>donneesMAJ\<close> has no key\<close>
  "sans_champ d =
     (d_titre d = None \<and> d_description d = None \<and> d_priorite d = None
      \<and> d_date_echeance d = None \<and> d_liste_id d = None \<and> d_statut d = None
      \<and> d_date_completion d = None)"

definition mettreAJour_tache ::
  "uuid \<Rightarrow> donnees_maj \<Rightarrow> monde \<Rightarrow> tache_complete option \<times> monde" where
  \<comment> \<open>\<open>Tache.update\<close> sends no statement when there is no value to write; the task is
      read again all the same. The values are those the validators of the PATCH route
      have let through, which the \<open>validate\<close> rules of the model accept as well\<close>
  "mettreAJour_tache i d m =
     (let m' = (if sans_champ d then m
                else m\<lparr>taches := map (\<lambda>t. if t_id t = i then appliquer_maj d t else t)
                                   (taches m),
                       journal := journal m @ [UPDATE_tache i]\<rparr>)
      in (trouverParId_tache m' i, m'))"

definition supprimer_tache :: "uuid \<Rightarrow> monde \<Rightarrow> monde" where
  \<comment> \<open>\<open>Tache.destroy\<close>; the foreign key historique_modifications.tache_id is
      ON DELETE CASCADE\<close>
  "supprimer_tache i m =
     m\<lparr>taches := filter (\<lambda>t. t_id t \<noteq> i) (taches m),
       historique := filter (\<lambda>h. tache_id h \<noteq> i) (historique m),
       journal := journal m @ [DELETE_tache i]\<rparr>"

text \<open>
  \<open>Op.iLike\<close> is the ILIKE of PostgreSQL: LIKE after the case folding of pattern and
  text. Which letters the database folds depends on its locale, so the folding of one
  character is a parameter, \<open>casse\<close>. In a LIKE pattern \<open>%\<close> stands for any run of
  characters, \<open>_\<close> for any one character, and a backslash makes the character after it
  literal. A pattern that ends in a lone backslash is refused by the database; the
  pattern of \<open>rechercher\<close> always ends in \<open>%\<close>, so that case is \<open>False\<close> here and
  never reached.

  \<open>toLowerCase\<close> is the lower-casing of a string whose characters are below U+0100: the
  letters A to Z and the capital letters of Latin-1 (U+00C0 to U+00DE but the
  multiplication sign U+00D7) move up by 32.
\<close>

definition majuscules_minuscules :: "(char \<times> char) list" where
  "majuscules_minuscules =
     zip (''ABCDEFGHIJKLMNOPQRSTUVWXYZ'' @
          [CHR 0xC0, CHR 0xC1, CHR 0xC2, CHR 0xC3, CHR 0xC4, CHR 0xC5, CHR 0xC6,
           CHR 0xC7, CHR 0xC8, CHR 0xC9, CHR 0xCA, CHR 0xCB, CHR 0xCC, CHR 0xCD,
           CHR 0xCE, CHR 0xCF, CHR 0xD0, CHR 0xD1, CHR 0xD2, CHR 0xD3, CHR 0xD4,
           CHR 0xD5, CHR 0xD6, CHR 0xD8, CHR 0xD9, CHR 0xDA, CHR 0xDB, CHR 0xDC,
           CHR 0xDD, CHR 0xDE])
         (''abcdefghijklmnopqrstuvwxyz'' @
          [CHR 0xE0, CHR 0xE1, CHR 0xE2, CHR 0xE3, CHR 0xE4, CHR 0xE5, CHR 0xE6,
           CHR 0xE7, CHR 0xE8, CHR 0xE9, CHR 0xEA, CHR 0xEB, CHR 0xEC, CHR 0xED,
           CHR 0xEE, CHR 0xEF, CHR 0xF0, CHR 0xF1, CHR 0xF2, CHR 0xF3, CHR 0xF4,
           CHR 0xF5, CHR 0xF6, CHR 0xF8, CHR 0xF9, CHR 0xFA, CHR 0xFB, CHR 0xFC,
           CHR 0xFD, CHR 0xFE])"

definition minuscule :: "char \<Rightarrow> char" where
  "minuscule c = (case map_of majuscules_minuscules c of None \<Rightarrow> c | Some d \<Rightarrow> d)"

definition toLowerCase :: "string \<Rightarrow> string" where
  "toLowerCase s = map minuscule s"

fun like :: "string \<Rightarrow> string \<Rightarrow> bool" where
  "like [] s = (s = [])"
| "like (p # ps) [] = (p = CHR ''%'' \<and> like ps [])"
| "like (p # ps) (c # cs) =
     (if p = CHR ''%'' then like ps (c # cs) \<or> like (p # ps) cs
      else if p = CHR 0x5C then (case ps of [] \<Rightarrow> False | q # qs \<Rightarrow> c = q \<and> like qs cs)
      else (p = CHR ''_'' \<or> p = c) \<and> like ps cs)"

definition iLike :: "(char \<Rightarrow> char) \<Rightarrow> string \<Rightarrow> string \<Rightarrow> bool" where
  "iLike casse s pattern = like (map casse pattern) (map casse s)"

definition rechercher_taches ::
  "(char \<Rightarrow> char) \<Rightarrow> monde \<Rightarrow> uuid \<Rightarrow> string \<Rightarrow> tache_complete list" where
  "rechercher_taches casse m uid recherche =
     map (inclure_liste m)
       (sort_key (\<lambda>t. - date_creation t)
          (filter (\<lambda>t. utilisateur_id t = uid
                       \<and> (iLike casse (titre t) (''%'' @ recherche @ ''%'')
                          \<or> (case description t of None \<Rightarrow> False
                             | Some d \<Rightarrow> iLike casse d (''%'' @ recherche @ ''%''))))
             (taches m)))"

definition enregistrerHistorique ::
  "env \<Rightarrow> uuid \<Rightarrow> statut \<Rightarrow> statut \<Rightarrow> monde \<Rightarrow> monde option" where
  \<comment> \<open>\<open>HistoriqueModification.create\<close>; fails on a primary key already there or a
      task that is no row\<close>
  "enregistrerHistorique ev tacheId ancienStatut nouveauStatut m =
     (if uuidv4 ev \<in> set (map h_id (historique m)) \<or> tacheId \<notin> set (map t_id (taches m))
      then None
      else Some (m\<lparr>historique := historique m @
                       [\<lparr>h_id = uuidv4 ev, tache_id = tacheId, ancien_statut = ancienStatut,
                         nouveau_statut = nouveauStatut, date_modification = maintenant ev\<rparr>],
                     journal := journal m @ [INSERT_historique tacheId ancienStatut nouveauStatut]\<rparr>))"

definition incrementer :: "statut \<Rightarrow> compteurs \<Rightarrow> compteurs" where
  \<comment> \<open>\<open>compteurs[t.statut]++\<close>\<close>
  "incrementer s c = (case s of
       A_FAIRE \<Rightarrow> c\<lparr>n_A_FAIRE := n_A_FAIRE c + 1\<rparr>
     | EN_COURS \<Rightarrow> c\<lparr>n_EN_COURS := n_EN_COURS c + 1\<rparr>
     | TERMINEE \<Rightarrow> c\<lparr>n_TERMINEE := n_TERMINEE c + 1\<rparr>)"

definition compterParStatut :: "monde \<Rightarrow> uuid \<Rightarrow> compteurs" where
  "compterParStatut m uid =
     (let ts = filter (\<lambda>t. utilisateur_id t = uid) (taches m)
      in fold (\<lambda>t c. incrementer (statut t) c) ts
           \<lparr>total = int (length ts), n_A_FAIRE = 0, n_EN_COURS = 0, n_TERMINEE = 0\<rparr>)"

definition dissocierListe :: "uuid \<Rightarrow> monde \<Rightarrow> monde" where
  "dissocierListe listeId m =
     m\<lparr>taches := map (\<lambda>t. if liste_id t = Some listeId then t\<lparr>liste_id := None\<rparr> else t)
                    (taches m),
       journal := journal m @ [UPDATE_taches_liste_null listeId]\<rparr>"

section \<open>controllers/taskController\<close>

text \<open>
  Every handler takes the identifier of the authenticated user (\<open>req.utilisateur.id\<close>)
  and, where the source reads \<open>validationResult(req)\<close>, the messages the route's
  validators have produced. A field of a request body is \<open>None\<close> when it is undefined;
  a field that may also be JSON null is an option of an option.
\<close>

record corps_tache =
  ct_titre :: string
  ct_description :: "string option"
  ct_priorite :: "priorite option"
  ct_date_echeance :: "jour option"
  ct_liste_id :: "uuid option"
  ct_statut :: "statut option"

definition ou_null :: "string option \<Rightarrow> string option" where
  \<comment> \<open>\<open>description || null\<close>: the empty string is falsy\<close>
  "ou_null x = (case x of None \<Rightarrow> None | Some s \<Rightarrow> if s = [] then None else Some s)"

definition liste_refusee :: "monde \<Rightarrow> uuid \<Rightarrow> uuid \<Rightarrow> bool" where
  \<comment> \<open>\<open>!liste || liste.utilisateur_id !== req.utilisateur.id\<close>\<close>
  "liste_refusee m requerant l =
     (case trouverParId_liste m l of None \<Rightarrow> True | Some li \<Rightarrow> l_utilisateur_id li \<noteq> requerant)"

definition creerTache ::
  "env \<Rightarrow> string list \<Rightarrow> uuid \<Rightarrow> corps_tache \<Rightarrow> monde \<Rightarrow> reponse \<times> monde" where
  "creerTache ev errors requerant body m =
     (case errors of
        e # _ \<Rightarrow> ((400, Echec (Validation e)), m)
      | [] \<Rightarrow>
         if (case ct_liste_id body of None \<Rightarrow> False | Some l \<Rightarrow> liste_refusee m requerant l)
         then ((403, Echec ListeNonTrouveeOuNonAutorisee), m)
         else
           (case creer_tache ev
                   \<lparr>dt_titre = ct_titre body,
                    dt_description = ou_null (ct_description body),
                    dt_priorite = (case ct_priorite body of None \<Rightarrow> MOYENNE | Some p \<Rightarrow> p),
                    dt_date_echeance = ct_date_echeance body,
                    dt_liste_id = ct_liste_id body,
                    dt_statut = A_FAIRE,
                    dt_utilisateur_id = requerant\<rparr> m of
              None \<Rightarrow> ((500, Echec ErreurInterne), m)
            | Some (t, m') \<Rightarrow> ((201, Succes (D_tache (trouverParId_tache m' (t_id t)))), m')))"

text \<open>
  The route of POST /taches runs before the handler: it trims the title and checks the
  length of the trimmed title and of the description; the first message of a failed
  check is the one the handler answers with 400. The checks on \<open>priorite\<close>,
  \<open>date_echeance\<close> and \<open>liste_id\<close> cannot fail on a body of the type \<open>corps_tache\<close>, so
  their messages are the parameter \<open>autres\<close>. A due date is a calendar date here: a
  date with a time of day, which the ISO 8601 check lets through and the DATEONLY
  column cuts, is not modelled.
\<close>

definition message_titre :: string where
  "message_titre = ''Le titre doit contenir entre 3 et 100 caract'' @ [CHR 0xE8] @ ''res.''"

definition message_description :: string where
  "message_description =
     ''La description ne peut pas d'' @ [CHR 0xE9] @ ''passer 2000 caract'' @ [CHR 0xE8] @ ''res.''"

definition erreurs_creerTache :: "corps_tache \<Rightarrow> string list" where
  \<comment> \<open>\<open>isLength({min: 3, max: 100})\<close> on the trimmed title, \<open>isLength({max: 2000})\<close> on a
      description that is neither undefined nor null\<close>
  "erreurs_creerTache body =
     (if length (ct_titre body) < 3 \<or> 100 < length (ct_titre body) then [message_titre] else [])
     @ (case ct_description body of
          None \<Rightarrow> []
        | Some d \<Rightarrow> if 2000 < length d then [message_description] else [])"

definition route_creerTache ::
  "env \<Rightarrow> string list \<Rightarrow> uuid \<Rightarrow> corps_tache \<Rightarrow> monde \<Rightarrow> reponse \<times> monde" where
  "route_creerTache ev autres requerant body m =
     (let body' = body\<lparr>ct_titre := trim (ct_titre body)\<rparr>
      in creerTache ev (erreurs_creerTache body' @ autres) requerant body' m)"

record requete_liste =
  q_page :: "int option"
  q_limit :: "int option"
  q_statut :: "string option"
  q_priorite :: "string option"
  q_liste_id :: "uuid option"

definition ou_defaut :: "int option \<Rightarrow> int \<Rightarrow> int" where
  \<comment> \<open>\<open>parseInt(x, 10) || d\<close>: \<open>None\<close> is NaN, and 0 is falsy as well\<close>
  "ou_defaut x d = (case x of None \<Rightarrow> d | Some n \<Rightarrow> if n = 0 then d else n)"

definition plafond :: "int \<Rightarrow> int \<Rightarrow> int" where
  \<comment> \<open>\<open>Math.ceil(total / limit)\<close>\<close>
  "plafond a b = \<lceil>real_of_int a / real_of_int b\<rceil>"

definition listerTaches :: "uuid \<Rightarrow> requete_liste \<Rightarrow> monde \<Rightarrow> reponse" where
  "listerTaches requerant query m =
     (let pg = ou_defaut (q_page query) defaultPage;
          lim = ou_defaut (q_limit query) defaultPageLimit
      in case listerParUtilisateur m requerant
                \<lparr>o_page = pg, o_limit = lim, o_statut = q_statut query,
                 o_priorite = q_priorite query, o_liste_id = q_liste_id query\<rparr> of
           None \<Rightarrow> (500, Echec ErreurInterne)
         | Some (rows, count) \<Rightarrow>
            (200, Succes (D_taches_page rows (compterParStatut m requerant)
                            \<lparr>page = pg, limit = lim, pg_total = count,
                             totalPages = plafond count lim\<rparr>)))"

definition detailTache :: "uuid \<Rightarrow> uuid \<Rightarrow> monde \<Rightarrow> reponse" where
  "detailTache requerant i m =
     (case trouverParId_tache m i of
        None \<Rightarrow> (404, Echec TacheNonTrouvee)
      | Some tc \<Rightarrow>
         if utilisateur_id (fst tc) \<noteq> requerant then (403, Echec AccesTacheNonAutorise)
         else (200, Succes (D_tache (Some tc))))"

record corps_maj_tache =
  mt_titre :: "string option"
  mt_description :: "string option option"
  mt_statut :: "statut option"
  mt_priorite :: "priorite option"
  mt_date_echeance :: "jour option option"
  mt_liste_id :: "uuid option option"

definition statut_change :: "corps_maj_tache \<Rightarrow> tache \<Rightarrow> bool" where
  \<comment> \<open>\<open>statut !== undefined && statut !== tache.statut\<close>\<close>
  "statut_change body t = (case mt_statut body of None \<Rightarrow> False | Some s \<Rightarrow> s \<noteq> statut t)"

definition donneesMAJ :: "env \<Rightarrow> corps_maj_tache \<Rightarrow> tache \<Rightarrow> donnees_maj" where
  "donneesMAJ ev body t =
     \<lparr>d_titre = mt_titre body,
      d_description = mt_description body,
      d_priorite = mt_priorite body,
      d_date_echeance = mt_date_echeance body,
      d_liste_id = mt_liste_id body,
      d_statut = (if statut_change body t then mt_statut body else None),
      d_date_completion =
        (if statut_change body t
         then (if mt_statut body = Some TERMINEE then Some (Some (maintenant ev))
               else if statut t = TERMINEE then Some None
               else None)
         else None)\<rparr>"

definition modifierTache ::
  "env \<Rightarrow> string list \<Rightarrow> uuid \<Rightarrow> uuid \<Rightarrow> corps_maj_tache \<Rightarrow> monde \<Rightarrow> reponse \<times> monde" where
  "modifierTache ev errors requerant i body m =
     (case errors of
        e # _ \<Rightarrow> ((400, Echec (Validation e)), m)
      | [] \<Rightarrow>
         (case trouverParId_tache m i of
            None \<Rightarrow> ((404, Echec TacheNonTrouvee), m)
          | Some tc \<Rightarrow>
             if utilisateur_id (fst tc) \<noteq> requerant
             then ((403, Echec AccesTacheNonAutorise), m)
             else if (case mt_liste_id body of
                        Some (Some l) \<Rightarrow> liste_refusee m requerant l
                      | _ \<Rightarrow> False)
             then ((403, Echec ListeNonTrouveeOuNonAutorisee), m)
             else
               (case (case mt_statut body of
                        None \<Rightarrow> Some m
                      | Some s \<Rightarrow>
                         if s \<noteq> statut (fst tc)
                         then enregistrerHistorique ev (t_id (fst tc)) (statut (fst tc)) s m
                         else Some m) of
                  None \<Rightarrow> ((500, Echec ErreurInterne), m)
                | Some m1 \<Rightarrow>
                   (let (tacheMAJ, m2) = mettreAJour_tache i (donneesMAJ ev body (fst tc)) m1
                    in ((200, Succes (D_tache tacheMAJ)), m2)))))"

definition supprimerTache :: "uuid \<Rightarrow> uuid \<Rightarrow> monde \<Rightarrow> reponse \<times> monde" where
  "supprimerTache requerant i m =
     (case trouverParId_tache m i of
        None \<Rightarrow> ((404, Echec TacheNonTrouvee), m)
      | Some tc \<Rightarrow>
         if utilisateur_id (fst tc) \<noteq> requerant then ((403, Echec AccesTacheNonAutorise), m)
         else ((200, Succes (D_message TacheSupprimee)), supprimer_tache i m))"

text \<open>
  The query parameter \<open>q\<close> is a string or undefined. (A repeated parameter, which the
  query parser turns into an array and on which \<open>trim\<close> raises, is not modelled.)
\<close>

definition rechercher ::
  "(char \<Rightarrow> char) \<Rightarrow> uuid \<Rightarrow> string option \<Rightarrow> monde \<Rightarrow> reponse" where
  "rechercher casse requerant q m =
     (case q of
        None \<Rightarrow> (400, Echec ParametreRechercheRequis)
      | Some s \<Rightarrow>
         if s = [] \<or> length (trim s) = 0 then (400, Echec ParametreRechercheRequis)
         else (200, Succes (D_taches (rechercher_taches casse m requerant (trim s)))))"



definition modifierListe ::
  "string list \<Rightarrow> uuid \<Rightarrow> uuid \<Rightarrow> donnees_maj_liste \<Rightarrow> monde \<Rightarrow> reponse \<times> monde" where
  "modifierListe errors requerant i body m =
     (case errors of
        e # _ \<Rightarrow> ((400, Echec (Validation e)), m)
      | [] \<Rightarrow>
         (case trouverParId_liste m i of
            None \<Rightarrow> ((404, Echec ListeNonTrouvee), m)
          | Some l \<Rightarrow>
             if l_utilisateur_id l \<noteq> requerant then ((403, Echec AccesListeNonAutorise), m)
             else (let (listeMAJ, m') = mettreAJour_liste i body m
                   in ((200, Succes (D_liste listeMAJ)), m'))))"

definition supprimerListe :: "uuid \<Rightarrow> uuid \<Rightarrow> monde \<Rightarrow> reponse \<times> monde" where
  "supprimerListe requerant i m =
     (case trouverParId_liste m i of
        None \<Rightarrow> ((404, Echec ListeNonTrouvee), m)
      | Some l \<Rightarrow>
         if l_utilisateur_id l \<noteq> requerant then ((403, Echec AccesListeNonAutorise), m)
         else ((200, Succes (D_message ListeSupprimee)),
               supprimer_liste i (dissocierListe i m)))"

subsection \<open>The requests that write\<close>



section \<open>Sample data\<close>

text \<open>
  A small world on which the definitions are evaluated: three users (Carol's account is
  locked), two lists and five tasks. \<open>bcrypt_exemple\<close> is a stand-in with the interface
  of bcrypt, not a hash function.
\<close>

definition bcrypt_exemple :: bcrypt where
  "bcrypt_exemple =
     \<lparr>bcrypt_hash = (\<lambda>p r. ''$2b$'' @ p), bcrypt_compare = (\<lambda>p h. h = ''$2b$'' @ p)\<rparr>"

definition env_exemple :: env where
  "env_exemple = \<lparr>maintenant = 1704067200000, uuidv4 = 999, jwtSecret = ''s3cret''\<rparr>"

definition alice :: utilisateur where
  "alice = \<lparr>u_id = 1, email = ''a@x.com'', nom_affichage = ''Alice'',
            mot_de_passe_hash = ''$2b$secret1'', u_date_creation = 1000, actif = True,
            tentatives_echec = 0\<rparr>"

definition bob :: utilisateur where
  "bob = \<lparr>u_id = 2, email = ''b@x.com'', nom_affichage = ''Bob'',
          mot_de_passe_hash = ''$2b$hunter2'', u_date_creation = 1100, actif = True,
          tentatives_echec = 2\<rparr>"

definition carol :: utilisateur where
  "carol = \<lparr>u_id = 3, email = ''c@x.com'', nom_affichage = ''Carol'',
            mot_de_passe_hash = ''$2b$letmein'', u_date_creation = 1200, actif = True,
            tentatives_echec = 3\<rparr>"

definition travail :: liste where
  "travail = \<lparr>l_id = 10, nom = ''Work'', couleur = ''#FF0000'', ordre = 0,
              l_utilisateur_id = 1\<rparr>"

definition maison :: liste where
  "maison = \<lparr>l_id = 11, nom = ''Home'', couleur = ''#3B82F6'', ordre = 1,
             l_utilisateur_id = 2\<rparr>"

definition lait :: tache where
  "lait = \<lparr>t_id = 100, titre = ''Buy milk'', description = None, statut = A_FAIRE,
           priorite = MOYENNE, date_echeance = Some 19754, date_creation = 1000,
           date_completion = None, utilisateur_id = 1, liste_id = Some 10\<rparr>"

definition loyer :: tache where
  "loyer = \<lparr>t_id = 101, titre = ''Pay rent'', description = Some ''100% before Friday'',
            statut = TERMINEE, priorite = HAUTE, date_echeance = Some 19723,
            date_creation = 2000, date_completion = Some 5000, utilisateur_id = 1,
            liste_id = Some 10\<rparr>"

definition appel :: tache where
  "appel = \<lparr>t_id = 102, titre = ''Call mum'', description = Some ''about the MILK'',
            statut = EN_COURS, priorite = BASSE, date_echeance = None, date_creation = 3000,
            date_completion = None, utilisateur_id = 1, liste_id = None\<rparr>"

definition livre :: tache where
  "livre = \<lparr>t_id = 103, titre = ''Read book'', description = None, statut = A_FAIRE,
            priorite = URGENTE, date_echeance = None, date_creation = 4000,
            date_completion = None, utilisateur_id = 1, liste_id = None\<rparr>"

definition vache :: tache where
  "vache = \<lparr>t_id = 200, titre = ''Milk the cow'', description = None, statut = A_FAIRE,
            priorite = MOYENNE, date_echeance = Some 19700, date_creation = 1500,
            date_completion = None, utilisateur_id = 2, liste_id = Some 11\<rparr>"

definition monde_exemple :: monde where
  "monde_exemple =
     \<lparr>utilisateurs = [alice, bob, carol], listes = [travail, maison],
      taches = [lait, loyer, appel, livre, vache], historique = [], journal = []\<rparr>"


definition voyage :: corps_tache where
  "voyage = \<lparr>ct_titre = ''Plan trip'', ct_description = Some [], ct_priorite = None,
             ct_date_echeance = Some 19800, ct_liste_id = Some 10, ct_statut = Some TERMINEE\<rparr>"

definition requete_vide :: requete_liste where
  \<comment> \<open>GET /taches without query parameters\<close>
  "requete_vide = \<lparr>q_page = None, q_limit = None, q_statut = None, q_priorite = None,
                   q_liste_id = None\<rparr>"

lemmas exemple_defs =
  monde_exemple_def alice_def bob_def carol_def travail_def maison_def lait_def loyer_def
  appel_def livre_def vache_def env_exemple_def bcrypt_exemple_def

section \<open>Login and lockout\<close>

lemma find_map_pres:
  "(\<And>x. P (f x) = P x) \<Longrightarrow> find P (map f xs) = map_option f (find P xs)"
  by (induction xs) auto

lemma find_cle_unique:
  "distinct (map k xs) \<Longrightarrow> x \<in> set xs \<Longrightarrow> find (\<lambda>v. k v = k x) xs = Some x"
  by (induction xs) (auto simp: image_iff)

lemma find_Some_mem: "find P xs = Some x \<Longrightarrow> x \<in> set xs \<and> P x"
  by (induction xs) (auto split: if_splits)

lemma login_inconnu:
  "trouverParEmail m (log_email body) = None \<Longrightarrow>
   login lib ev [] body m = ((401, Echec IdentifiantsInvalides), m)"
  by (simp add: login_def)

lemma login_verrouille:
  "trouverParEmail m (log_email body) = Some u \<Longrightarrow> tentatives_echec u \<ge> 3 \<Longrightarrow>
   login lib ev [] body m = ((423, Echec CompteVerrouille), m)"
  by (simp add: login_def maxLoginAttempts_def)

lemma recharger_apres_increment:
  assumes "distinct (map u_id (utilisateurs m))" "trouverParEmail m e = Some u"
  shows "trouverParIdAvecMotDePasse (incrementerTentativesEchec (u_id u) m) (u_id u)
         = Some (u\<lparr>tentatives_echec := tentatives_echec u + 1\<rparr>)"
proof -
  let ?f = "\<lambda>v. if u_id v = u_id u then v\<lparr>tentatives_echec := tentatives_echec v + 1\<rparr> else v"
  have mem: "u \<in> set (utilisateurs m)"
    using assms(2) find_Some_mem unfolding trouverParEmail_def by fastforce
  have "find (\<lambda>v. u_id v = u_id u) (map ?f (utilisateurs m))
        = map_option ?f (find (\<lambda>v. u_id v = u_id u) (utilisateurs m))"
    by (rule find_map_pres) simp
  also have "\<dots> = Some (?f u)"
    using find_cle_unique [OF assms(1) mem] by simp
  finally show ?thesis
    by (simp add: trouverParIdAvecMotDePasse_def incrementerTentativesEchec_def)
qed

lemma login_mauvais:
  assumes "distinct (map u_id (utilisateurs m))"
    and "trouverParEmail m (log_email body) = Some u"
    and "tentatives_echec u < 3"
    and "\<not> bcrypt_compare lib (log_mot_de_passe body) (mot_de_passe_hash u)"
  shows "login lib ev [] body m =
           ((if tentatives_echec u + 1 \<ge> 3 then (423, Echec CompteVerrouille)
             else (401, Echec IdentifiantsInvalides)),
            incrementerTentativesEchec (u_id u) m)"
  using assms(2-4) recharger_apres_increment [OF assms(1,2)]
  by (simp add: login_def maxLoginAttempts_def Let_def)

lemma login_bon:
  assumes "trouverParEmail m (log_email body) = Some u"
    and "tentatives_echec u < 3"
    and "bcrypt_compare lib (log_mot_de_passe body) (mot_de_passe_hash u)"
  shows "login lib ev [] body m =
           ((200, Succes (D_connexion
               \<lparr>j_id = u_id u, j_email = email u, iat = maintenant ev div 1000,
                exp = maintenant ev div 1000 + 86400, j_secret = jwtSecret ev\<rparr> (public u))),
            reinitialiserTentativesEchec (u_id u) m)"
  using assms
  by (simp add: login_def maxLoginAttempts_def Let_def jwt_sign_def jwtExpiration_def)

lemma trouverParEmail_increment:
  "trouverParEmail m e = Some u \<Longrightarrow>
   trouverParEmail (incrementerTentativesEchec (u_id u) m) e
     = Some (u\<lparr>tentatives_echec := tentatives_echec u + 1\<rparr>)"
proof -
  assume a: "trouverParEmail m e = Some u"
  let ?f = "\<lambda>v. if u_id v = u_id u then v\<lparr>tentatives_echec := tentatives_echec v + 1\<rparr> else v"
  have "find (\<lambda>v. email v = e) (map ?f (utilisateurs m))
        = map_option ?f (find (\<lambda>v. email v = e) (utilisateurs m))"
    by (rule find_map_pres) simp
  then show ?thesis using a
    by (simp add: trouverParEmail_def incrementerTentativesEchec_def)
qed

lemma trouverParEmail_reinit:
  "trouverParEmail m e = Some u \<Longrightarrow>
   trouverParEmail (reinitialiserTentativesEchec (u_id u) m) e
     = Some (u\<lparr>tentatives_echec := 0\<rparr>)"
proof -
  assume a: "trouverParEmail m e = Some u"
  let ?f = "\<lambda>v. if u_id v = u_id u then v\<lparr>tentatives_echec := 0\<rparr> else v"
  have "find (\<lambda>v. email v = e) (map ?f (utilisateurs m))
        = map_option ?f (find (\<lambda>v. email v = e) (utilisateurs m))"
    by (rule find_map_pres) simp
  then show ?thesis using a
    by (simp add: trouverParEmail_def reinitialiserTentativesEchec_def)
qed


lemma incr_ids:
  "map u_id (utilisateurs (incrementerTentativesEchec i m)) = map u_id (utilisateurs m)"
  by (simp add: incrementerTentativesEchec_def o_def if_distrib cong: if_cong)

lemma login_mauvais_suite:
  assumes "distinct (map u_id (utilisateurs m))"
    and "trouverParEmail m (log_email body) = Some u"
    and "tentatives_echec u < 3"
    and "\<not> bcrypt_compare lib (log_mot_de_passe body) (mot_de_passe_hash u)"
  shows "fst (login lib ev [] body m) =
           (if 3 \<le> tentatives_echec u + 1 then (423, Echec CompteVerrouille)
            else (401, Echec IdentifiantsInvalides))"
    and "trouverParEmail (snd (login lib ev [] body m)) (log_email body)
           = Some (u\<lparr>tentatives_echec := tentatives_echec u + 1\<rparr>)"
    and "distinct (map u_id (utilisateurs (snd (login lib ev [] body m))))"
  using login_mauvais [OF assms] trouverParEmail_increment [OF assms(2)] assms(1)
  by (simp_all add: incr_ids)

lemma trois_echecs:
  assumes pk: "distinct (map u_id (utilisateurs m))"
    and u: "trouverParEmail m e = Some u" "tentatives_echec u = 0"
    and e: "log_email b1 = e" "log_email b2 = e" "log_email b3 = e" "log_email b4 = e"
    and w: "\<not> bcrypt_compare l1 (log_mot_de_passe b1) (mot_de_passe_hash u)"
           "\<not> bcrypt_compare l2 (log_mot_de_passe b2) (mot_de_passe_hash u)"
           "\<not> bcrypt_compare l3 (log_mot_de_passe b3) (mot_de_passe_hash u)"
  shows "fst (login l4 e4 [] b4 (snd (login l3 e3 [] b3 (snd (login l2 e2 [] b2
           (snd (login l1 e1 [] b1 m))))))) = (423, Echec CompteVerrouille)"
proof -
  let ?m1 = "snd (login l1 e1 [] b1 m)"
  let ?m2 = "snd (login l2 e2 [] b2 ?m1)"
  let ?m3 = "snd (login l3 e3 [] b3 ?m2)"
  have s1: "trouverParEmail ?m1 e = Some (u\<lparr>tentatives_echec := 1\<rparr>)"
       "distinct (map u_id (utilisateurs ?m1))"
    using login_mauvais_suite(2,3) [of m b1 u l1 e1] pk u e w by simp_all
  have s2: "trouverParEmail ?m2 e = Some (u\<lparr>tentatives_echec := 2\<rparr>)"
       "distinct (map u_id (utilisateurs ?m2))"
    using login_mauvais_suite(2,3) [of ?m1 b2 "u\<lparr>tentatives_echec := 1\<rparr>" l2 e2] s1 e w
    by simp_all
  have s3: "trouverParEmail ?m3 e = Some (u\<lparr>tentatives_echec := 3\<rparr>)"
    using login_mauvais_suite(2) [of ?m2 b3 "u\<lparr>tentatives_echec := 2\<rparr>" l3 e3] s2 e w
    by simp
  show ?thesis
    using login_verrouille [of ?m3 b4 "u\<lparr>tentatives_echec := 3\<rparr>" l4 e4] s3 e by simp
qed

text \<open>
  C1. A login with well-formed input (no validation message) on a table whose primary
  key is unique: an unknown email is answered 401 (invalid credentials) and nothing
  changes; a user whose counter of failed attempts is already 3 or more is answered 423
  (account locked) whatever the password, and nothing changes; a wrong password adds
  exactly one to the counter and is answered 423 when the counter has now reached 3 and
  401 otherwise; a right password with a counter below 3 resets the counter to 0 and is
  answered 200 with a token that carries the user's id and email and expires 24 hours
  after it was issued. Hence after three wrong passwords in a row on a fresh counter, a
  fourth attempt is answered 423 whatever its password.
\<close>

theorem C1_login:
  assumes "distinct (map u_id (utilisateurs m))"
  shows "(trouverParEmail m (log_email body) = None \<longrightarrow>
            login lib ev [] body m = ((401, Echec IdentifiantsInvalides), m))
       \<and> (\<forall>u. trouverParEmail m (log_email body) = Some u \<longrightarrow>
            (if 3 \<le> tentatives_echec u
             then login lib ev [] body m = ((423, Echec CompteVerrouille), m)
             else if \<not> bcrypt_compare lib (log_mot_de_passe body) (mot_de_passe_hash u)
             then fst (login lib ev [] body m) =
                    (if 3 \<le> tentatives_echec u + 1 then (423, Echec CompteVerrouille)
                     else (401, Echec IdentifiantsInvalides))
                  \<and> trouverParEmail (snd (login lib ev [] body m)) (log_email body)
                      = Some (u\<lparr>tentatives_echec := tentatives_echec u + 1\<rparr>)
             else fst (login lib ev [] body m) =
                    (200, Succes (D_connexion
                       \<lparr>j_id = u_id u, j_email = email u, iat = maintenant ev div 1000,
                        exp = maintenant ev div 1000 + 24 * 60 * 60, j_secret = jwtSecret ev\<rparr>
                       (public u)))
                  \<and> trouverParEmail (snd (login lib ev [] body m)) (log_email body)
                      = Some (u\<lparr>tentatives_echec := 0\<rparr>)))
       \<and> (\<forall>u b1 b2 b3 b4 l1 l2 l3 l4 e1 e2 e3 e4.
            trouverParEmail m (log_email body) = Some u \<and> tentatives_echec u = 0
            \<and> log_email b1 = log_email body \<and> log_email b2 = log_email body
            \<and> log_email b3 = log_email body \<and> log_email b4 = log_email body
            \<and> \<not> bcrypt_compare l1 (log_mot_de_passe b1) (mot_de_passe_hash u)
            \<and> \<not> bcrypt_compare l2 (log_mot_de_passe b2) (mot_de_passe_hash u)
            \<and> \<not> bcrypt_compare l3 (log_mot_de_passe b3) (mot_de_passe_hash u)
            \<longrightarrow> fst (login l4 e4 [] b4 (snd (login l3 e3 [] b3 (snd (login l2 e2 [] b2
                   (snd (login l1 e1 [] b1 m))))))) = (423, Echec CompteVerrouille))"
proof (intro conjI allI impI)
  assume "trouverParEmail m (log_email body) = None"
  then show "login lib ev [] body m = ((401, Echec IdentifiantsInvalides), m)"
    by (rule login_inconnu)
next
  fix u :: utilisateur
  assume u: "trouverParEmail m (log_email body) = Some u"
  show "if 3 \<le> tentatives_echec u
        then login lib ev [] body m = ((423, Echec CompteVerrouille), m)
        else if \<not> bcrypt_compare lib (log_mot_de_passe body) (mot_de_passe_hash u)
        then fst (login lib ev [] body m) =
               (if 3 \<le> tentatives_echec u + 1 then (423, Echec CompteVerrouille)
                else (401, Echec IdentifiantsInvalides))
             \<and> trouverParEmail (snd (login lib ev [] body m)) (log_email body)
                 = Some (u\<lparr>tentatives_echec := tentatives_echec u + 1\<rparr>)
        else fst (login lib ev [] body m) =
               (200, Succes (D_connexion
                  \<lparr>j_id = u_id u, j_email = email u, iat = maintenant ev div 1000,
                   exp = maintenant ev div 1000 + 24 * 60 * 60, j_secret = jwtSecret ev\<rparr>
                  (public u)))
             \<and> trouverParEmail (snd (login lib ev [] body m)) (log_email body)
                 = Some (u\<lparr>tentatives_echec := 0\<rparr>)"
  proof (cases "3 \<le> tentatives_echec u")
    case True
    then show ?thesis using login_verrouille [OF u] by simp
  next
    case False
    show ?thesis
    proof (cases "bcrypt_compare lib (log_mot_de_passe body) (mot_de_passe_hash u)")
      case True
      with False show ?thesis
        using login_bon [OF u, of lib ev] trouverParEmail_reinit [OF u] by simp
    next
      case c: False
      with False show ?thesis
        using login_mauvais_suite(1,2) [OF assms u, of lib ev] by simp
    qed
  qed
next
  fix u :: utilisateur and b1 b2 b3 b4 :: corps_login and l1 l2 l3 l4 :: bcrypt
    and e1 e2 e3 e4 :: env
  assume "trouverParEmail m (log_email body) = Some u \<and> tentatives_echec u = 0
            \<and> log_email b1 = log_email body \<and> log_email b2 = log_email body
            \<and> log_email b3 = log_email body \<and> log_email b4 = log_email body
            \<and> \<not> bcrypt_compare l1 (log_mot_de_passe b1) (mot_de_passe_hash u)
            \<and> \<not> bcrypt_compare l2 (log_mot_de_passe b2) (mot_de_passe_hash u)
            \<and> \<not> bcrypt_compare l3 (log_mot_de_passe b3) (mot_de_passe_hash u)"
  then show "fst (login l4 e4 [] b4 (snd (login l3 e3 [] b3 (snd (login l2 e2 [] b2
                   (snd (login l1 e1 [] b1 m))))))) = (423, Echec CompteVerrouille)"
    by (elim conjE) (rule trois_echecs [OF assms])
qed


theorem C1_login_witness:
  "distinct (map u_id (utilisateurs monde_exemple))
   \<and> login bcrypt_exemple env_exemple []
        \<lparr>log_email = ''z@x.com'', log_mot_de_passe = ''secret1''\<rparr> monde_exemple
       = ((401, Echec IdentifiantsInvalides), monde_exemple)
   \<and> login bcrypt_exemple env_exemple []
        \<lparr>log_email = ''c@x.com'', log_mot_de_passe = ''letmein''\<rparr> monde_exemple
       = ((423, Echec CompteVerrouille), monde_exemple)
   \<and> fst (login bcrypt_exemple env_exemple []
        \<lparr>log_email = ''b@x.com'', log_mot_de_passe = ''wrong''\<rparr> monde_exemple)
       = (423, Echec CompteVerrouille)
   \<and> fst (login bcrypt_exemple env_exemple []
        \<lparr>log_email = ''a@x.com'', log_mot_de_passe = ''wrong''\<rparr> monde_exemple)
       = (401, Echec IdentifiantsInvalides)
   \<and> fst (login bcrypt_exemple env_exemple []
        \<lparr>log_email = ''b@x.com'', log_mot_de_passe = ''hunter2''\<rparr> monde_exemple)
       = (200, Succes (D_connexion
            \<lparr>j_id = 2, j_email = ''b@x.com'', iat = 1704067200, exp = 1704153600,
             j_secret = ''s3cret''\<rparr> (public bob)))
   \<and> trouverParEmail (snd (login bcrypt_exemple env_exemple []
        \<lparr>log_email = ''b@x.com'', log_mot_de_passe = ''hunter2''\<rparr> monde_exemple)) ''b@x.com''
       = Some (bob\<lparr>tentatives_echec := 0\<rparr>)
   \<and> fst (login bcrypt_exemple env_exemple []
        \<lparr>log_email = ''a@x.com'', log_mot_de_passe = ''secret1''\<rparr>
        (snd (login bcrypt_exemple env_exemple []
           \<lparr>log_email = ''a@x.com'', log_mot_de_passe = ''guess3''\<rparr>
        (snd (login bcrypt_exemple env_exemple []
           \<lparr>log_email = ''a@x.com'', log_mot_de_passe = ''guess2''\<rparr>
        (snd (login bcrypt_exemple env_exemple []
           \<lparr>log_email = ''a@x.com'', log_mot_de_passe = ''guess1''\<rparr> monde_exemple)))))))
       = (423, Echec CompteVerrouille)"
proof -
  have pk: "distinct (map u_id (utilisateurs monde_exemple))"
    by (simp add: exemple_defs)
  have a: "trouverParEmail monde_exemple ''a@x.com'' = Some alice"
    and b: "trouverParEmail monde_exemple ''b@x.com'' = Some bob"
    and c: "trouverParEmail monde_exemple ''c@x.com'' = Some carol"
    and z: "trouverParEmail monde_exemple ''z@x.com'' = None"
    by (simp_all add: trouverParEmail_def exemple_defs)
  show ?thesis
    using pk a b c z
      C1_login [OF pk, of "\<lparr>log_email = ''z@x.com'', log_mot_de_passe = ''secret1''\<rparr>"
        bcrypt_exemple env_exemple]
      C1_login [OF pk, of "\<lparr>log_email = ''c@x.com'', log_mot_de_passe = ''letmein''\<rparr>"
        bcrypt_exemple env_exemple]
      C1_login [OF pk, of "\<lparr>log_email = ''b@x.com'', log_mot_de_passe = ''wrong''\<rparr>"
        bcrypt_exemple env_exemple]
      C1_login [OF pk, of "\<lparr>log_email = ''a@x.com'', log_mot_de_passe = ''wrong''\<rparr>"
        bcrypt_exemple env_exemple]
      C1_login [OF pk, of "\<lparr>log_email = ''b@x.com'', log_mot_de_passe = ''hunter2''\<rparr>"
        bcrypt_exemple env_exemple]
      C1_login [OF pk, of "\<lparr>log_email = ''a@x.com'', log_mot_de_passe = ''secret1''\<rparr>",
        THEN conjunct2, THEN conjunct2, rule_format,
        of alice "\<lparr>log_email = ''a@x.com'', log_mot_de_passe = ''guess1''\<rparr>"
           "\<lparr>log_email = ''a@x.com'', log_mot_de_passe = ''guess2''\<rparr>"
           "\<lparr>log_email = ''a@x.com'', log_mot_de_passe = ''guess3''\<rparr>"
           "\<lparr>log_email = ''a@x.com'', log_mot_de_passe = ''secret1''\<rparr>"
           bcrypt_exemple bcrypt_exemple bcrypt_exemple bcrypt_exemple
           env_exemple env_exemple env_exemple env_exemple]
    by (simp add: alice_def bob_def carol_def bcrypt_exemple_def env_exemple_def)
qed

section \<open>Registration\<close>

lemma trouverParEmail_None:
  "(trouverParEmail m e = None) = (e \<notin> set (map email (utilisateurs m)))"
  by (auto simp: trouverParEmail_def find_None_iff)

lemma register_doublon:
  "(fst (register lib ev [] body m) = (400, Echec EmailDejaUtilise))
     = (reg_email body \<in> set (map email (utilisateurs m)))"
proof (cases "trouverParEmail m (reg_email body)")
  case None
  then show ?thesis
    using trouverParEmail_None [of m "reg_email body"]
    by (simp add: register_def Let_def split: option.splits prod.splits)
next
  case (Some u)
  then show ?thesis
    using trouverParEmail_None [of m "reg_email body"] by (simp add: register_def)
qed

lemma register_nouveau:
  assumes "reg_email body \<notin> set (map email (utilisateurs m))"
    and "uuidv4 ev \<notin> set (map u_id (utilisateurs m))"
  shows "register lib ev [] body m =
           ((201, Succes (D_utilisateur
               \<lparr>p_id = uuidv4 ev, p_email = reg_email body,
                p_nom_affichage = reg_nom_affichage body, p_date_creation = maintenant ev\<rparr>)),
            m\<lparr>utilisateurs := utilisateurs m @
                 [\<lparr>u_id = uuidv4 ev, email = reg_email body,
                   nom_affichage = reg_nom_affichage body,
                   mot_de_passe_hash = bcrypt_hash lib (reg_mot_de_passe body) 10,
                   u_date_creation = maintenant ev, actif = True, tentatives_echec = 0\<rparr>],
               journal := journal m @ [INSERT_utilisateur (uuidv4 ev)]\<rparr>)"
  using assms trouverParEmail_None [of m "reg_email body"]
  by (simp add: register_def creer_utilisateur_def Let_def public_def bcryptSaltRounds_def)

text \<open>
  C6, as amended. The route hands the controller the email after \<open>normalizeEmail\<close> and
  the display name after \<open>trim\<close>. With well-formed input, POST /register fails with
  "email already used" exactly when a stored email equals the normalised email (an exact
  comparison of the normalised address, not of the address as supplied). Otherwise, with
  a fresh identifier, it appends one user whose only trace of the password is the bcrypt
  hash with 10 rounds, with counter 0 and active, and answers 201 with id, email,
  display name and creation date. The response never depends on the password or on the
  hash.
\<close>

theorem C6_register:
  "((fst (route_register normalizeEmail lib ev [] body m) = (400, Echec EmailDejaUtilise))
      = (normalizeEmail (reg_email body) \<in> set (map email (utilisateurs m))))
   \<and> (normalizeEmail (reg_email body) \<notin> set (map email (utilisateurs m))
        \<and> uuidv4 ev \<notin> set (map u_id (utilisateurs m)) \<longrightarrow>
      route_register normalizeEmail lib ev [] body m =
        ((201, Succes (D_utilisateur
            \<lparr>p_id = uuidv4 ev, p_email = normalizeEmail (reg_email body),
             p_nom_affichage = trim (reg_nom_affichage body),
             p_date_creation = maintenant ev\<rparr>)),
         m\<lparr>utilisateurs := utilisateurs m @
              [\<lparr>u_id = uuidv4 ev, email = normalizeEmail (reg_email body),
                nom_affichage = trim (reg_nom_affichage body),
                mot_de_passe_hash = bcrypt_hash lib (reg_mot_de_passe body) 10,
                u_date_creation = maintenant ev, actif = True, tentatives_echec = 0\<rparr>],
            journal := journal m @ [INSERT_utilisateur (uuidv4 ev)]\<rparr>))
   \<and> fst (route_register normalizeEmail lib ev errors body m)
       = fst (route_register normalizeEmail lib' ev errors (body\<lparr>reg_mot_de_passe := pw\<rparr>) m)"
proof (intro conjI impI)
  show "(fst (route_register normalizeEmail lib ev [] body m) = (400, Echec EmailDejaUtilise))
      = (normalizeEmail (reg_email body) \<in> set (map email (utilisateurs m)))"
    unfolding route_register_def using register_doublon [of lib ev _ m] by simp
next
  assume "normalizeEmail (reg_email body) \<notin> set (map email (utilisateurs m))
        \<and> uuidv4 ev \<notin> set (map u_id (utilisateurs m))"
  then show "route_register normalizeEmail lib ev [] body m =
        ((201, Succes (D_utilisateur
            \<lparr>p_id = uuidv4 ev, p_email = normalizeEmail (reg_email body),
             p_nom_affichage = trim (reg_nom_affichage body),
             p_date_creation = maintenant ev\<rparr>)),
         m\<lparr>utilisateurs := utilisateurs m @
              [\<lparr>u_id = uuidv4 ev, email = normalizeEmail (reg_email body),
                nom_affichage = trim (reg_nom_affichage body),
                mot_de_passe_hash = bcrypt_hash lib (reg_mot_de_passe body) 10,
                u_date_creation = maintenant ev, actif = True, tentatives_echec = 0\<rparr>],
            journal := journal m @ [INSERT_utilisateur (uuidv4 ev)]\<rparr>)"
    unfolding route_register_def
    using register_nouveau [of "body\<lparr>reg_email := normalizeEmail (reg_email body),
             reg_nom_affichage := trim (reg_nom_affichage body)\<rparr>" m ev lib]
    by simp
next
  show "fst (route_register normalizeEmail lib ev errors body m)
       = fst (route_register normalizeEmail lib' ev errors (body\<lparr>reg_mot_de_passe := pw\<rparr>) m)"
    by (simp add: route_register_def register_def creer_utilisateur_def Let_def public_def
        split: list.splits option.splits)
qed

theorem C6_register_witness:
  "route_register toLowerCase bcrypt_exemple env_exemple []
     \<lparr>reg_email = ''Dave@X.com'', reg_mot_de_passe = ''secret1'', reg_nom_affichage = '' Dave ''\<rparr>
     monde_exemple
   = ((201, Succes (D_utilisateur
         \<lparr>p_id = 999, p_email = ''dave@x.com'', p_nom_affichage = ''Dave'',
          p_date_creation = 1704067200000\<rparr>)),
      monde_exemple\<lparr>utilisateurs := [alice, bob, carol,
           \<lparr>u_id = 999, email = ''dave@x.com'', nom_affichage = ''Dave'',
            mot_de_passe_hash = ''$2b$secret1'', u_date_creation = 1704067200000,
            actif = True, tentatives_echec = 0\<rparr>],
         journal := [INSERT_utilisateur 999]\<rparr>)
   \<and> fst (route_register toLowerCase bcrypt_exemple env_exemple []
       \<lparr>reg_email = ''b@x.com'', reg_mot_de_passe = ''secret1'', reg_nom_affichage = ''Bobby''\<rparr>
       monde_exemple) = (400, Echec EmailDejaUtilise)"
  using
    C6_register [of toLowerCase bcrypt_exemple env_exemple
      "\<lparr>reg_email = ''Dave@X.com'', reg_mot_de_passe = ''secret1'',
        reg_nom_affichage = '' Dave ''\<rparr>" monde_exemple]
    C6_register [of toLowerCase bcrypt_exemple env_exemple
      "\<lparr>reg_email = ''b@x.com'', reg_mot_de_passe = ''secret1'',
        reg_nom_affichage = ''Bobby''\<rparr>" monde_exemple]
  by (simp add: exemple_defs toLowerCase_def minuscule_def majuscules_minuscules_def
      trim_def estBlanc_def)

text \<open>
  The claim as stated compares the email as supplied. The validator library's
  \<open>normalizeEmail\<close> lower-cases an address of an ordinary domain, so a registration
  with \<open>A@x.com\<close> is refused as a duplicate of the stored \<open>a@x.com\<close>, although no
  stored email is \<open>A@x.com\<close>.
\<close>

theorem C6_register_counterexample:
  "fst (route_register toLowerCase bcrypt_exemple env_exemple []
     \<lparr>reg_email = ''A@x.com'', reg_mot_de_passe = ''secret1'', reg_nom_affichage = ''Alice''\<rparr>
     monde_exemple) = (400, Echec EmailDejaUtilise)
   \<and> ''A@x.com'' \<notin> set (map email (utilisateurs monde_exemple))"
  by (simp add: route_register_def register_def trouverParEmail_def exemple_defs
      toLowerCase_def minuscule_def majuscules_minuscules_def)

section \<open>Existence before ownership\<close>

lemma find_None_cle: "(find (\<lambda>v. k v = i) xs = None) = (i \<notin> k ` set xs)"
  by (auto simp: find_None_iff)

lemma find_Some_cle:
  "distinct (map k xs) \<Longrightarrow> (find (\<lambda>v. k v = i) xs = Some x) = (x \<in> set xs \<and> k x = i)"
  by (induction xs) (auto simp: image_iff)

lemma tache_cas [consumes 1, case_names absente presente]:
  assumes "distinct (map t_id (taches m))"
  obtains (absente) "i \<notin> t_id ` set (taches m)" "trouverParId_tache m i = None"
  | (presente) t where "t \<in> set (taches m)" "t_id t = i"
      "trouverParId_tache m i = Some (inclure_liste m t)"
      "\<forall>t'\<in>set (taches m). t_id t' = i \<longrightarrow> t' = t"
proof (cases "find (\<lambda>t. t_id t = i) (taches m)")
  case None
  have "i \<notin> t_id ` set (taches m)"
    using None find_None_cle [of t_id i "taches m"] by simp
  moreover have "trouverParId_tache m i = None"
    using None by (simp add: trouverParId_tache_def)
  ultimately show ?thesis by (rule absente)
next
  case (Some t)
  have t: "t \<in> set (taches m) \<and> t_id t = i"
    using Some find_Some_cle [OF assms, of i t] by simp
  have u: "\<forall>t'\<in>set (taches m). t_id t' = i \<longrightarrow> t' = t"
  proof (intro ballI impI)
    fix t' assume "t' \<in> set (taches m)" "t_id t' = i"
    then have "find (\<lambda>t. t_id t = i) (taches m) = Some t'"
      using find_Some_cle [OF assms, of i t'] by simp
    with Some show "t' = t" by simp
  qed
  have "trouverParId_tache m i = Some (inclure_liste m t)"
    using Some by (simp add: trouverParId_tache_def)
  with t u show ?thesis using presente [of t] by blast
qed

lemma liste_cas [consumes 1, case_names absente presente]:
  assumes "distinct (map l_id (listes m))"
  obtains (absente) "i \<notin> l_id ` set (listes m)" "trouverParId_liste m i = None"
  | (presente) l where "l \<in> set (listes m)" "l_id l = i" "trouverParId_liste m i = Some l"
      "\<forall>l'\<in>set (listes m). l_id l' = i \<longrightarrow> l' = l"
proof (cases "find (\<lambda>l. l_id l = i) (listes m)")
  case None
  have "i \<notin> l_id ` set (listes m)"
    using None find_None_cle [of l_id i "listes m"] by simp
  moreover have "trouverParId_liste m i = None"
    using None by (simp add: trouverParId_liste_def)
  ultimately show ?thesis by (rule absente)
next
  case (Some l)
  have l: "l \<in> set (listes m) \<and> l_id l = i"
    using Some find_Some_cle [OF assms, of i l] by simp
  have u: "\<forall>l'\<in>set (listes m). l_id l' = i \<longrightarrow> l' = l"
  proof (intro ballI impI)
    fix l' assume "l' \<in> set (listes m)" "l_id l' = i"
    then have "find (\<lambda>l. l_id l = i) (listes m) = Some l'"
      using find_Some_cle [OF assms, of i l'] by simp
    with Some show "l' = l" by simp
  qed
  have "trouverParId_liste m i = Some l"
    using Some by (simp add: trouverParId_liste_def)
  with l u show ?thesis using presente [of l] by blast
qed

lemma existe_iff_present:
  assumes "t \<in> set xs" and "k t = i" and "\<forall>t'\<in>set xs. k t' = i \<longrightarrow> t' = t"
  shows "(\<exists>t'\<in>set xs. k t' = i \<and> P t') = P t"
  using assms by blast

lemma existe_iff_absent:
  assumes "i \<notin> k ` set xs"
  shows "(\<exists>t'\<in>set xs. k t' = i \<and> P t') = False"
  using assms by blast

lemma present_image: "t \<in> set xs \<Longrightarrow> k t = i \<Longrightarrow> i \<in> k ` set xs"
  by blast

lemma fst_inclure_liste: "fst (inclure_liste m t) = t"
  by (simp add: inclure_liste_def)

lemma liste_refusee_iff:
  assumes "distinct (map l_id (listes m))"
  shows "liste_refusee m r l =
           (l \<notin> l_id ` set (listes m)
            \<or> (\<exists>li\<in>set (listes m). l_id li = l \<and> l_utilisateur_id li \<noteq> r))"
  using assms
proof (cases rule: liste_cas [where i = l])
  case absente
  then show ?thesis by (simp add: liste_refusee_def)
next
  case (presente li)
  have "liste_refusee m r l = (l_utilisateur_id li \<noteq> r)"
    using presente(3) by (simp add: liste_refusee_def)
  then show ?thesis
    using present_image [where k = l_id, OF presente(1,2)]
      existe_iff_present [where k = l_id and P = "\<lambda>x. l_utilisateur_id x \<noteq> r", OF presente(1,2,4)]
    by simp
qed

lemma detailTache_404:
  assumes "distinct (map t_id (taches m))"
  shows "(detailTache r i m = (404, Echec TacheNonTrouvee)) = (i \<notin> t_id ` set (taches m))"
  using assms
proof (cases rule: tache_cas [where i = i])
  case absente
  then show ?thesis by (simp add: detailTache_def)
next
  case (presente t)
  have "detailTache r i m \<noteq> (404, Echec TacheNonTrouvee)"
    using presente(3) by (simp add: detailTache_def)
  then show ?thesis using present_image [where k = t_id, OF presente(1,2)] by simp
qed

lemma detailTache_403:
  assumes "distinct (map t_id (taches m))"
  shows "(detailTache r i m = (403, Echec AccesTacheNonAutorise))
           = (\<exists>t\<in>set (taches m). t_id t = i \<and> utilisateur_id t \<noteq> r)"
  using assms
proof (cases rule: tache_cas [where i = i])
  case absente
  have "detailTache r i m \<noteq> (403, Echec AccesTacheNonAutorise)"
    using absente(2) by (simp add: detailTache_def)
  then show ?thesis
    using existe_iff_absent [where k = t_id and P = "\<lambda>x. utilisateur_id x \<noteq> r", OF absente(1)] by simp
next
  case (presente t)
  have "(detailTache r i m = (403, Echec AccesTacheNonAutorise)) = (utilisateur_id t \<noteq> r)"
    using presente(3) by (simp add: detailTache_def fst_inclure_liste)
  then show ?thesis
    using existe_iff_present [where k = t_id and P = "\<lambda>x. utilisateur_id x \<noteq> r", OF presente(1,2,4)] by simp
qed

lemma supprimerTache_404:
  assumes "distinct (map t_id (taches m))"
  shows "(fst (supprimerTache r i m) = (404, Echec TacheNonTrouvee))
           = (i \<notin> t_id ` set (taches m))"
  using assms
proof (cases rule: tache_cas [where i = i])
  case absente
  then show ?thesis by (simp add: supprimerTache_def)
next
  case (presente t)
  have "fst (supprimerTache r i m) \<noteq> (404, Echec TacheNonTrouvee)"
    using presente(3) by (simp add: supprimerTache_def)
  then show ?thesis using present_image [where k = t_id, OF presente(1,2)] by simp
qed

lemma supprimerTache_403:
  assumes "distinct (map t_id (taches m))"
  shows "(fst (supprimerTache r i m) = (403, Echec AccesTacheNonAutorise))
           = (\<exists>t\<in>set (taches m). t_id t = i \<and> utilisateur_id t \<noteq> r)"
  using assms
proof (cases rule: tache_cas [where i = i])
  case absente
  have "fst (supprimerTache r i m) \<noteq> (403, Echec AccesTacheNonAutorise)"
    using absente(2) by (simp add: supprimerTache_def)
  then show ?thesis
    using existe_iff_absent [where k = t_id and P = "\<lambda>x. utilisateur_id x \<noteq> r", OF absente(1)] by simp
next
  case (presente t)
  have "(fst (supprimerTache r i m) = (403, Echec AccesTacheNonAutorise))
          = (utilisateur_id t \<noteq> r)"
    using presente(3) by (simp add: supprimerTache_def fst_inclure_liste)
  then show ?thesis
    using existe_iff_present [where k = t_id and P = "\<lambda>x. utilisateur_id x \<noteq> r", OF presente(1,2,4)] by simp
qed

lemma modifierTache_absente:
  "trouverParId_tache m i = None \<Longrightarrow>
   modifierTache ev [] r i body m = ((404, Echec TacheNonTrouvee), m)"
  by (simp add: modifierTache_def)

lemma modifierTache_autrui:
  "trouverParId_tache m i = Some tc \<Longrightarrow> utilisateur_id (fst tc) \<noteq> r \<Longrightarrow>
   modifierTache ev [] r i body m = ((403, Echec AccesTacheNonAutorise), m)"
  by (simp add: modifierTache_def)

lemma modifierTache_liste_refusee:
  "trouverParId_tache m i = Some tc \<Longrightarrow> utilisateur_id (fst tc) = r \<Longrightarrow>
   mt_liste_id body = Some (Some l) \<Longrightarrow> liste_refusee m r l \<Longrightarrow>
   modifierTache ev [] r i body m = ((403, Echec ListeNonTrouveeOuNonAutorisee), m)"
  by (simp add: modifierTache_def)

lemma modifierTache_acceptee:
  assumes "trouverParId_tache m i = Some tc" and "utilisateur_id (fst tc) = r"
    and "\<not> (\<exists>l. mt_liste_id body = Some (Some l) \<and> liste_refusee m r l)"
  shows "modifierTache ev [] r i body m =
           (case (case mt_statut body of
                    None \<Rightarrow> Some m
                  | Some s \<Rightarrow>
                     if s \<noteq> statut (fst tc)
                     then enregistrerHistorique ev (t_id (fst tc)) (statut (fst tc)) s m
                     else Some m) of
              None \<Rightarrow> ((500, Echec ErreurInterne), m)
            | Some m1 \<Rightarrow>
               ((200, Succes (D_tache
                   (fst (mettreAJour_tache i (donneesMAJ ev body (fst tc)) m1)))),
                snd (mettreAJour_tache i (donneesMAJ ev body (fst tc)) m1)))"
proof -
  have "\<not> (case mt_liste_id body of Some (Some l) \<Rightarrow> liste_refusee m r l | _ \<Rightarrow> False)"
    using assms(3) by (cases "mt_liste_id body") (auto split: option.split)
  then show ?thesis
    using assms(1,2)
    by (simp add: modifierTache_def case_prod_beta Let_def cong: option.case_cong)
qed

lemma modifierTache_presente:
  assumes "trouverParId_tache m i = Some (inclure_liste m t)"
  shows "(fst (modifierTache ev [] r i body m) = (403, Echec AccesTacheNonAutorise)
          \<and> utilisateur_id t \<noteq> r)
       \<or> (fst (modifierTache ev [] r i body m) = (403, Echec ListeNonTrouveeOuNonAutorisee)
          \<and> utilisateur_id t = r
          \<and> (\<exists>l. mt_liste_id body = Some (Some l) \<and> liste_refusee m r l))
       \<or> ((fst (fst (modifierTache ev [] r i body m)) = 200
           \<or> fst (fst (modifierTache ev [] r i body m)) = 500)
          \<and> utilisateur_id t = r
          \<and> \<not> (\<exists>l. mt_liste_id body = Some (Some l) \<and> liste_refusee m r l))"
proof (cases "utilisateur_id t \<noteq> r")
  case True
  then show ?thesis
    using modifierTache_autrui [OF assms, of r ev body] by (simp add: fst_inclure_liste)
next
  case False
  then have own: "utilisateur_id (fst (inclure_liste m t)) = r"
    by (simp add: fst_inclure_liste)
  show ?thesis
  proof (cases "\<exists>l. mt_liste_id body = Some (Some l) \<and> liste_refusee m r l")
    case True
    then obtain l where "mt_liste_id body = Some (Some l)" "liste_refusee m r l" by blast
    then show ?thesis
      using modifierTache_liste_refusee [OF assms own, of body l ev] False True by simp
  next
    case nl: False
    have "modifierTache ev [] r i body m =
           (case (case mt_statut body of
                    None \<Rightarrow> Some m
                  | Some s \<Rightarrow>
                     if s \<noteq> statut (fst (inclure_liste m t))
                     then enregistrerHistorique ev (t_id (fst (inclure_liste m t)))
                            (statut (fst (inclure_liste m t))) s m
                     else Some m) of
              None \<Rightarrow> ((500, Echec ErreurInterne), m)
            | Some m1 \<Rightarrow>
               ((200, Succes (D_tache
                   (fst (mettreAJour_tache i
                          (donneesMAJ ev body (fst (inclure_liste m t))) m1)))),
                snd (mettreAJour_tache i (donneesMAJ ev body (fst (inclure_liste m t))) m1)))"
      by (rule modifierTache_acceptee [OF assms own nl])
    then have "fst (fst (modifierTache ev [] r i body m)) = 200
               \<or> fst (fst (modifierTache ev [] r i body m)) = 500"
      by (simp split: option.split)
    then show ?thesis using False nl by simp
  qed
qed

lemma modifierTache_404:
  assumes "distinct (map t_id (taches m))"
  shows "(fst (modifierTache ev [] r i body m) = (404, Echec TacheNonTrouvee))
           = (i \<notin> t_id ` set (taches m))"
  using assms
proof (cases rule: tache_cas [where i = i])
  case absente
  then show ?thesis by (simp add: modifierTache_absente)
next
  case (presente t)
  have "fst (modifierTache ev [] r i body m) \<noteq> (404, Echec TacheNonTrouvee)"
    using modifierTache_presente [OF presente(3), of ev r body] by auto
  then show ?thesis using present_image [where k = t_id, OF presente(1,2)] by simp
qed

lemma modifierTache_403:
  assumes "distinct (map t_id (taches m))"
  shows "(fst (modifierTache ev [] r i body m) = (403, Echec AccesTacheNonAutorise))
           = (\<exists>t\<in>set (taches m). t_id t = i \<and> utilisateur_id t \<noteq> r)"
  using assms
proof (cases rule: tache_cas [where i = i])
  case absente
  have "fst (modifierTache ev [] r i body m) \<noteq> (403, Echec AccesTacheNonAutorise)"
    using absente(2) by (simp add: modifierTache_absente)
  then show ?thesis
    using existe_iff_absent [where k = t_id and P = "\<lambda>x. utilisateur_id x \<noteq> r", OF absente(1)]
    by simp
next
  case (presente t)
  have "(fst (modifierTache ev [] r i body m) = (403, Echec AccesTacheNonAutorise))
          = (utilisateur_id t \<noteq> r)"
    using modifierTache_presente [OF presente(3), of ev r body] by auto
  then show ?thesis
    using existe_iff_present [where k = t_id and P = "\<lambda>x. utilisateur_id x \<noteq> r",
        OF presente(1,2,4)]
    by simp
qed

lemma modifierTache_liste_403:
  assumes "distinct (map t_id (taches m))"
  shows "(fst (modifierTache ev [] r i body m) = (403, Echec ListeNonTrouveeOuNonAutorisee))
           = ((\<exists>t\<in>set (taches m). t_id t = i \<and> utilisateur_id t = r)
              \<and> (\<exists>l. mt_liste_id body = Some (Some l) \<and> liste_refusee m r l))"
  using assms
proof (cases rule: tache_cas [where i = i])
  case absente
  have "fst (modifierTache ev [] r i body m) \<noteq> (403, Echec ListeNonTrouveeOuNonAutorisee)"
    using absente(2) by (simp add: modifierTache_absente)
  then show ?thesis
    using existe_iff_absent [where k = t_id and P = "\<lambda>x. utilisateur_id x = r", OF absente(1)]
    by simp
next
  case (presente t)
  have "(fst (modifierTache ev [] r i body m) = (403, Echec ListeNonTrouveeOuNonAutorisee))
          = (utilisateur_id t = r
             \<and> (\<exists>l. mt_liste_id body = Some (Some l) \<and> liste_refusee m r l))"
    using modifierTache_presente [OF presente(3), of ev r body] by auto
  then show ?thesis
    using existe_iff_present [where k = t_id and P = "\<lambda>x. utilisateur_id x = r",
        OF presente(1,2,4)]
    by simp
qed

lemma creerTache_reponse:
  "fst (creerTache ev [] r body m) =
     (if (case ct_liste_id body of None \<Rightarrow> False | Some l \<Rightarrow> liste_refusee m r l)
      then (403, Echec ListeNonTrouveeOuNonAutorisee)
      else case creer_tache ev
                  \<lparr>dt_titre = ct_titre body, dt_description = ou_null (ct_description body),
                   dt_priorite = (case ct_priorite body of None \<Rightarrow> MOYENNE | Some p \<Rightarrow> p),
                   dt_date_echeance = ct_date_echeance body, dt_liste_id = ct_liste_id body,
                   dt_statut = A_FAIRE, dt_utilisateur_id = r\<rparr> m of
             None \<Rightarrow> (500, Echec ErreurInterne)
           | Some (t, m') \<Rightarrow> (201, Succes (D_tache (trouverParId_tache m' (t_id t)))))"
proof -
  define d where "d = \<lparr>dt_titre = ct_titre body, dt_description = ou_null (ct_description body),
                   dt_priorite = (case ct_priorite body of None \<Rightarrow> MOYENNE | Some p \<Rightarrow> p),
                   dt_date_echeance = ct_date_echeance body, dt_liste_id = ct_liste_id body,
                   dt_statut = A_FAIRE, dt_utilisateur_id = r\<rparr>"
  show ?thesis
    unfolding creerTache_def d_def [symmetric]
    by (cases "creer_tache ev d m") auto
qed

lemma creerTache_liste_403:
  "(fst (creerTache ev [] r body m) = (403, Echec ListeNonTrouveeOuNonAutorisee))
     = (\<exists>l. ct_liste_id body = Some l \<and> liste_refusee m r l)"
proof -
  define d where "d = \<lparr>dt_titre = ct_titre body, dt_description = ou_null (ct_description body),
                   dt_priorite = (case ct_priorite body of None \<Rightarrow> MOYENNE | Some p \<Rightarrow> p),
                   dt_date_echeance = ct_date_echeance body, dt_liste_id = ct_liste_id body,
                   dt_statut = A_FAIRE, dt_utilisateur_id = r\<rparr>"
  show ?thesis
    unfolding creerTache_reponse d_def [symmetric]
    by (cases "ct_liste_id body"; cases "creer_tache ev d m") auto
qed

lemma creerTache_jamais_404: "fst (fst (creerTache ev [] r body m)) \<noteq> 404"
proof -
  define d where "d = \<lparr>dt_titre = ct_titre body, dt_description = ou_null (ct_description body),
                   dt_priorite = (case ct_priorite body of None \<Rightarrow> MOYENNE | Some p \<Rightarrow> p),
                   dt_date_echeance = ct_date_echeance body, dt_liste_id = ct_liste_id body,
                   dt_statut = A_FAIRE, dt_utilisateur_id = r\<rparr>"
  show ?thesis
    unfolding creerTache_reponse d_def [symmetric]
    by (cases "creer_tache ev d m") auto
qed

lemma modifierListe_404:
  assumes "distinct (map l_id (listes m))"
  shows "(fst (modifierListe [] r i body m) = (404, Echec ListeNonTrouvee))
           = (i \<notin> l_id ` set (listes m))"
  using assms
proof (cases rule: liste_cas [where i = i])
  case absente
  then show ?thesis by (simp add: modifierListe_def)
next
  case (presente l)
  have "fst (modifierListe [] r i body m) \<noteq> (404, Echec ListeNonTrouvee)"
    using presente(3) by (simp add: modifierListe_def case_prod_beta)
  then show ?thesis using present_image [where k = l_id, OF presente(1,2)] by simp
qed

lemma modifierListe_403:
  assumes "distinct (map l_id (listes m))"
  shows "(fst (modifierListe [] r i body m) = (403, Echec AccesListeNonAutorise))
           = (\<exists>l\<in>set (listes m). l_id l = i \<and> l_utilisateur_id l \<noteq> r)"
  using assms
proof (cases rule: liste_cas [where i = i])
  case absente
  have "fst (modifierListe [] r i body m) \<noteq> (403, Echec AccesListeNonAutorise)"
    using absente(2) by (simp add: modifierListe_def)
  then show ?thesis
    using existe_iff_absent [where k = l_id and P = "\<lambda>x. l_utilisateur_id x \<noteq> r",
        OF absente(1)]
    by simp
next
  case (presente l)
  have "(fst (modifierListe [] r i body m) = (403, Echec AccesListeNonAutorise))
          = (l_utilisateur_id l \<noteq> r)"
    using presente(3) by (simp add: modifierListe_def case_prod_beta)
  then show ?thesis
    using existe_iff_present [where k = l_id and P = "\<lambda>x. l_utilisateur_id x \<noteq> r",
        OF presente(1,2,4)]
    by simp
qed

lemma supprimerListe_404:
  assumes "distinct (map l_id (listes m))"
  shows "(fst (supprimerListe r i m) = (404, Echec ListeNonTrouvee))
           = (i \<notin> l_id ` set (listes m))"
  using assms
proof (cases rule: liste_cas [where i = i])
  case absente
  then show ?thesis by (simp add: supprimerListe_def)
next
  case (presente l)
  have "fst (supprimerListe r i m) \<noteq> (404, Echec ListeNonTrouvee)"
    using presente(3) by (simp add: supprimerListe_def)
  then show ?thesis using present_image [where k = l_id, OF presente(1,2)] by simp
qed

lemma supprimerListe_403:
  assumes "distinct (map l_id (listes m))"
  shows "(fst (supprimerListe r i m) = (403, Echec AccesListeNonAutorise))
           = (\<exists>l\<in>set (listes m). l_id l = i \<and> l_utilisateur_id l \<noteq> r)"
  using assms
proof (cases rule: liste_cas [where i = i])
  case absente
  have "fst (supprimerListe r i m) \<noteq> (403, Echec AccesListeNonAutorise)"
    using absente(2) by (simp add: supprimerListe_def)
  then show ?thesis
    using existe_iff_absent [where k = l_id and P = "\<lambda>x. l_utilisateur_id x \<noteq> r",
        OF absente(1)]
    by simp
next
  case (presente l)
  have "(fst (supprimerListe r i m) = (403, Echec AccesListeNonAutorise))
          = (l_utilisateur_id l \<noteq> r)"
    using presente(3) by (simp add: supprimerListe_def)
  then show ?thesis
    using existe_iff_present [where k = l_id and P = "\<lambda>x. l_utilisateur_id x \<noteq> r",
        OF presente(1,2,4)]
    by simp
qed

text \<open>
  C2, as amended. On tables whose primary keys are unique and with well-formed input:
  GetTask, UpdateTask and DeleteTask answer 404 exactly when no task has the identifier,
  and 403 (access to the task refused) exactly when the task exists and its owner is not
  the requester; UpdateList and DeleteList do the same for lists. The validation of a
  list identifier inside CreateTask and UpdateTask looks the list up before it compares
  the owner, but reports a missing list and a list of another owner alike as 403 (list
  not found or not authorised), never as 404.
\<close>

theorem C2_existence_puis_propriete:
  assumes "distinct (map t_id (taches m))" and "distinct (map l_id (listes m))"
  shows "((detailTache r i m = (404, Echec TacheNonTrouvee)) = (i \<notin> t_id ` set (taches m)))
   \<and> ((detailTache r i m = (403, Echec AccesTacheNonAutorise))
        = (\<exists>t\<in>set (taches m). t_id t = i \<and> utilisateur_id t \<noteq> r))
   \<and> ((fst (modifierTache ev [] r i body m) = (404, Echec TacheNonTrouvee))
        = (i \<notin> t_id ` set (taches m)))
   \<and> ((fst (modifierTache ev [] r i body m) = (403, Echec AccesTacheNonAutorise))
        = (\<exists>t\<in>set (taches m). t_id t = i \<and> utilisateur_id t \<noteq> r))
   \<and> ((fst (supprimerTache r i m) = (404, Echec TacheNonTrouvee))
        = (i \<notin> t_id ` set (taches m)))
   \<and> ((fst (supprimerTache r i m) = (403, Echec AccesTacheNonAutorise))
        = (\<exists>t\<in>set (taches m). t_id t = i \<and> utilisateur_id t \<noteq> r))
   \<and> ((fst (modifierListe [] r j dl m) = (404, Echec ListeNonTrouvee))
        = (j \<notin> l_id ` set (listes m)))
   \<and> ((fst (modifierListe [] r j dl m) = (403, Echec AccesListeNonAutorise))
        = (\<exists>l\<in>set (listes m). l_id l = j \<and> l_utilisateur_id l \<noteq> r))
   \<and> ((fst (supprimerListe r j m) = (404, Echec ListeNonTrouvee))
        = (j \<notin> l_id ` set (listes m)))
   \<and> ((fst (supprimerListe r j m) = (403, Echec AccesListeNonAutorise))
        = (\<exists>l\<in>set (listes m). l_id l = j \<and> l_utilisateur_id l \<noteq> r))
   \<and> ((fst (creerTache ev [] r ct m) = (403, Echec ListeNonTrouveeOuNonAutorisee))
        = (\<exists>k. ct_liste_id ct = Some k
             \<and> (k \<notin> l_id ` set (listes m)
                \<or> (\<exists>l\<in>set (listes m). l_id l = k \<and> l_utilisateur_id l \<noteq> r))))
   \<and> fst (fst (creerTache ev [] r ct m)) \<noteq> 404
   \<and> ((fst (modifierTache ev [] r i body m) = (403, Echec ListeNonTrouveeOuNonAutorisee))
        = ((\<exists>t\<in>set (taches m). t_id t = i \<and> utilisateur_id t = r)
           \<and> (\<exists>k. mt_liste_id body = Some (Some k)
                \<and> (k \<notin> l_id ` set (listes m)
                   \<or> (\<exists>l\<in>set (listes m). l_id l = k \<and> l_utilisateur_id l \<noteq> r)))))"
proof (intro conjI)
  show "(fst (creerTache ev [] r ct m) = (403, Echec ListeNonTrouveeOuNonAutorisee))
        = (\<exists>k. ct_liste_id ct = Some k
             \<and> (k \<notin> l_id ` set (listes m)
                \<or> (\<exists>l\<in>set (listes m). l_id l = k \<and> l_utilisateur_id l \<noteq> r)))"
    unfolding creerTache_liste_403 liste_refusee_iff [OF assms(2)] ..
  show "(fst (modifierTache ev [] r i body m) = (403, Echec ListeNonTrouveeOuNonAutorisee))
        = ((\<exists>t\<in>set (taches m). t_id t = i \<and> utilisateur_id t = r)
           \<and> (\<exists>k. mt_liste_id body = Some (Some k)
                \<and> (k \<notin> l_id ` set (listes m)
                   \<or> (\<exists>l\<in>set (listes m). l_id l = k \<and> l_utilisateur_id l \<noteq> r))))"
    unfolding modifierTache_liste_403 [OF assms(1)] liste_refusee_iff [OF assms(2)] ..
qed (rule detailTache_404 [OF assms(1)] detailTache_403 [OF assms(1)]
    modifierTache_404 [OF assms(1)] modifierTache_403 [OF assms(1)]
    supprimerTache_404 [OF assms(1)] supprimerTache_403 [OF assms(1)]
    modifierListe_404 [OF assms(2)] modifierListe_403 [OF assms(2)]
    supprimerListe_404 [OF assms(2)] supprimerListe_403 [OF assms(2)]
    creerTache_jamais_404)+


theorem C2_existence_puis_propriete_witness:
  "distinct (map t_id (taches monde_exemple)) \<and> distinct (map l_id (listes monde_exemple))
   \<and> detailTache 1 555 monde_exemple = (404, Echec TacheNonTrouvee)
   \<and> detailTache 2 100 monde_exemple = (403, Echec AccesTacheNonAutorise)
   \<and> fst (supprimerTache 2 100 monde_exemple) = (403, Echec AccesTacheNonAutorise)
   \<and> fst (supprimerListe 1 11 monde_exemple) = (403, Echec AccesListeNonAutorise)
   \<and> fst (supprimerListe 1 12 monde_exemple) = (404, Echec ListeNonTrouvee)
   \<and> fst (modifierTache env_exemple [] 1 100
          \<lparr>mt_titre = None, mt_description = None, mt_statut = None, mt_priorite = None,
           mt_date_echeance = None, mt_liste_id = Some (Some 11)\<rparr> monde_exemple)
       = (403, Echec ListeNonTrouveeOuNonAutorisee)
   \<and> fst (creerTache env_exemple [] 1
          \<lparr>ct_titre = ''Plan trip'', ct_description = None, ct_priorite = None,
           ct_date_echeance = None, ct_liste_id = Some 11, ct_statut = None\<rparr> monde_exemple)
       = (403, Echec ListeNonTrouveeOuNonAutorisee)"
proof -
  have pt: "distinct (map t_id (taches monde_exemple))"
    and pl: "distinct (map l_id (listes monde_exemple))"
    by (simp_all add: exemple_defs)
  show ?thesis
    using pt pl
      C2_existence_puis_propriete [OF pt pl, where r = 1 and i = 555 and j = 12]
      C2_existence_puis_propriete [OF pt pl, where r = 2 and i = 100]
      C2_existence_puis_propriete [OF pt pl, where r = 1 and i = 100 and j = 11
        and ev = env_exemple
        and body = "\<lparr>mt_titre = None, mt_description = None, mt_statut = None,
           mt_priorite = None, mt_date_echeance = None, mt_liste_id = Some (Some 11)\<rparr>"
        and ct = "\<lparr>ct_titre = ''Plan trip'', ct_description = None, ct_priorite = None,
           ct_date_echeance = None, ct_liste_id = Some 11, ct_statut = None\<rparr>"]
    by (simp add: exemple_defs)
qed

text \<open>
  The claim as stated fails for the validation of a list identifier: Alice creates a
  task in a list that does not exist, and the answer is 403, not 404.
\<close>

theorem C2_existence_puis_propriete_counterexample:
  "fst (creerTache env_exemple [] 1
          \<lparr>ct_titre = ''Plan trip'', ct_description = None, ct_priorite = None,
           ct_date_echeance = None, ct_liste_id = Some 77, ct_statut = None\<rparr> monde_exemple)
     = (403, Echec ListeNonTrouveeOuNonAutorisee)
   \<and> 77 \<notin> l_id ` set (listes monde_exemple)"
  by (simp add: creerTache_def liste_refusee_def trouverParId_liste_def exemple_defs)

section \<open>Status changes and their history\<close>


















section \<open>Creation of a task\<close>

lemma find_append_absent:
  "find P xs = None \<Longrightarrow> find P (xs @ [x]) = (if P x then Some x else None)"
  by (induction xs) (auto split: if_splits)

lemma liste_acceptee_existe:
  assumes "\<not> liste_refusee m r l"
  shows "l \<in> l_id ` set (listes m)"
proof (cases "find (\<lambda>x. l_id x = l) (listes m)")
  case None
  then show ?thesis using assms by (simp add: liste_refusee_def trouverParId_liste_def)
next
  case (Some li)
  then show ?thesis
    using find_Some_mem [of "\<lambda>x. l_id x = l" "listes m" li] by auto
qed

lemma creer_tache_succes:
  assumes "uuidv4 ev \<notin> t_id ` set (taches m)"
    and "dt_utilisateur_id d \<in> u_id ` set (utilisateurs m)"
    and "\<forall>l. dt_liste_id d = Some l \<longrightarrow> l \<in> l_id ` set (listes m)"
    and "3 \<le> length (dt_titre d)" and "length (dt_titre d) \<le> 100"
    and "\<forall>x. dt_description d = Some x \<longrightarrow> length x \<le> 2000"
  shows "creer_tache ev d m =
           Some (\<lparr>t_id = uuidv4 ev, titre = dt_titre d, description = dt_description d,
                  statut = dt_statut d, priorite = dt_priorite d,
                  date_echeance = dt_date_echeance d, date_creation = maintenant ev,
                  date_completion = None, utilisateur_id = dt_utilisateur_id d,
                  liste_id = dt_liste_id d\<rparr>,
                 m\<lparr>taches := taches m @
                      [\<lparr>t_id = uuidv4 ev, titre = dt_titre d, description = dt_description d,
                        statut = dt_statut d, priorite = dt_priorite d,
                        date_echeance = dt_date_echeance d, date_creation = maintenant ev,
                        date_completion = None, utilisateur_id = dt_utilisateur_id d,
                        liste_id = dt_liste_id d\<rparr>],
                    journal := journal m @ [INSERT_tache (uuidv4 ev)]\<rparr>)"
  using assms
  by (cases "dt_liste_id d"; cases "dt_description d") (simp_all add: creer_tache_def Let_def)

lemma creer_tache_invalide:
  assumes "length (dt_titre d) < 3 \<or> 100 < length (dt_titre d)
           \<or> (\<exists>x. dt_description d = Some x \<and> 2000 < length x)"
  shows "creer_tache ev d m = None"
  using assms by (cases "dt_description d") (auto simp: creer_tache_def Let_def)

lemma ou_null_longueur:
  assumes "\<forall>x. y = Some x \<longrightarrow> length x \<le> n"
  shows "\<forall>x. ou_null y = Some x \<longrightarrow> length x \<le> n"
  using assms by (cases y) (simp_all add: ou_null_def)

lemma trouver_tache_creee:
  assumes "uuidv4 ev \<notin> t_id ` set (taches m)" and "t_id t = uuidv4 ev"
    and "taches m' = taches m @ [t]"
  shows "trouverParId_tache m' (uuidv4 ev) = Some (inclure_liste m' t)"
proof -
  have "find (\<lambda>x. t_id x = uuidv4 ev) (taches m) = None"
    using assms(1) find_None_cle [of t_id "uuidv4 ev" "taches m"] by simp
  then have "find (\<lambda>x. t_id x = uuidv4 ev) (taches m @ [t]) = Some t"
    using assms(2) by (simp add: find_append_absent)
  then show ?thesis using assms(3) by (simp add: trouverParId_tache_def)
qed

lemma creerTache_cree:
  assumes li: "\<not> (\<exists>l. ct_liste_id ct = Some l \<and> liste_refusee m r l)"
    and id: "uuidv4 ev \<notin> t_id ` set (taches m)"
    and us: "r \<in> u_id ` set (utilisateurs m)"
    and t3: "3 \<le> length (ct_titre ct)" and t100: "length (ct_titre ct) \<le> 100"
    and de: "\<forall>x. ct_description ct = Some x \<longrightarrow> length x \<le> 2000"
  defines "t \<equiv> \<lparr>t_id = uuidv4 ev, titre = ct_titre ct, description = ou_null (ct_description ct),
                  statut = A_FAIRE,
                  priorite = (case ct_priorite ct of None \<Rightarrow> MOYENNE | Some p \<Rightarrow> p),
                  date_echeance = ct_date_echeance ct, date_creation = maintenant ev,
                  date_completion = None, utilisateur_id = r, liste_id = ct_liste_id ct\<rparr>"
  shows "snd (creerTache ev [] r ct m) =
           m\<lparr>taches := taches m @ [t], journal := journal m @ [INSERT_tache (uuidv4 ev)]\<rparr>"
    and "fst (creerTache ev [] r ct m) =
           (201, Succes (D_tache (Some (inclure_liste (snd (creerTache ev [] r ct m)) t))))"
    and "detailTache r (uuidv4 ev) (snd (creerTache ev [] r ct m)) =
           (200, Succes (D_tache (Some (inclure_liste (snd (creerTache ev [] r ct m)) t))))"
proof -
  define d where "d = \<lparr>dt_titre = ct_titre ct, dt_description = ou_null (ct_description ct),
          dt_priorite = (case ct_priorite ct of None \<Rightarrow> MOYENNE | Some p \<Rightarrow> p),
          dt_date_echeance = ct_date_echeance ct, dt_liste_id = ct_liste_id ct,
          dt_statut = A_FAIRE, dt_utilisateur_id = r\<rparr>"
  define m' where "m' = m\<lparr>taches := taches m @ [t],
                            journal := journal m @ [INSERT_tache (uuidv4 ev)]\<rparr>"
  have nl: "\<not> (case ct_liste_id ct of None \<Rightarrow> False | Some l \<Rightarrow> liste_refusee m r l)"
    using li by (cases "ct_liste_id ct") simp_all
  have fk: "\<forall>l. dt_liste_id d = Some l \<longrightarrow> l \<in> l_id ` set (listes m)"
    using li liste_acceptee_existe [of m r] by (simp add: d_def)
  have de': "\<forall>x. dt_description d = Some x \<longrightarrow> length x \<le> 2000"
    using ou_null_longueur [OF de] by (simp add: d_def)
  have "creer_tache ev d m = Some (t, m')"
    using creer_tache_succes [of ev m d, OF id _ fk _ _ de'] us t3 t100
    by (simp add: d_def t_def m'_def)
  then have c: "creerTache ev [] r ct m
                 = ((201, Succes (D_tache (trouverParId_tache m' (t_id t)))), m')"
    using nl unfolding creerTache_def d_def [symmetric] by simp
  have tr: "trouverParId_tache m' (uuidv4 ev) = Some (inclure_liste m' t)"
    by (rule trouver_tache_creee [OF id]) (simp_all add: t_def m'_def)
  show "snd (creerTache ev [] r ct m) =
           m\<lparr>taches := taches m @ [t], journal := journal m @ [INSERT_tache (uuidv4 ev)]\<rparr>"
    using c by (simp add: m'_def)
  have sn: "snd (creerTache ev [] r ct m) = m'" using c by simp
  show "fst (creerTache ev [] r ct m) =
           (201, Succes (D_tache (Some (inclure_liste (snd (creerTache ev [] r ct m)) t))))"
    unfolding sn using c tr by (simp add: t_def)
  show "detailTache r (uuidv4 ev) (snd (creerTache ev [] r ct m)) =
           (200, Succes (D_tache (Some (inclure_liste (snd (creerTache ev [] r ct m)) t))))"
    unfolding sn using tr by (simp add: detailTache_def fst_inclure_liste t_def)
qed

lemma creerTache_refus:
  assumes "ct_liste_id ct = Some l" and "liste_refusee m r l"
  shows "creerTache ev [] r ct m = ((403, Echec ListeNonTrouveeOuNonAutorisee), m)"
  using assms by (simp add: creerTache_def)

lemma creerTache_statut_ignore:
  "creerTache ev errors r (ct\<lparr>ct_statut := x\<rparr>) m = creerTache ev errors r ct m"
  by (cases errors) (simp_all add: creerTache_def)

lemma creerTache_modele_refuse:
  assumes "\<not> (\<exists>l. ct_liste_id ct = Some l \<and> liste_refusee m r l)"
    and "length (ct_titre ct) < 3 \<or> 100 < length (ct_titre ct)"
  shows "creerTache ev [] r ct m = ((500, Echec ErreurInterne), m)"
proof -
  define d where "d = \<lparr>dt_titre = ct_titre ct, dt_description = ou_null (ct_description ct),
          dt_priorite = (case ct_priorite ct of None \<Rightarrow> MOYENNE | Some p \<Rightarrow> p),
          dt_date_echeance = ct_date_echeance ct, dt_liste_id = ct_liste_id ct,
          dt_statut = A_FAIRE, dt_utilisateur_id = r\<rparr>"
  have nl: "\<not> (case ct_liste_id ct of None \<Rightarrow> False | Some l \<Rightarrow> liste_refusee m r l)"
    using assms(1) by (cases "ct_liste_id ct") simp_all
  have "creer_tache ev d m = None"
    using assms(2) by (intro creer_tache_invalide) (auto simp: d_def)
  then show ?thesis
    using nl unfolding creerTache_def d_def [symmetric] by simp
qed

lemma erreurs_creerTache_titre:
  assumes "length (ct_titre ct) < 3 \<or> 100 < length (ct_titre ct)"
  shows "\<exists>es. erreurs_creerTache ct = message_titre # es"
  using assms by (simp add: erreurs_creerTache_def)

lemma erreurs_creerTache_description:
  assumes "3 \<le> length (ct_titre ct)" and "length (ct_titre ct) \<le> 100"
    and "ct_description ct = Some d" and "2000 < length d"
  shows "erreurs_creerTache ct = [message_description]"
  using assms by (simp add: erreurs_creerTache_def)

lemma erreurs_creerTache_aucune:
  assumes "3 \<le> length (ct_titre ct)" and "length (ct_titre ct) \<le> 100"
    and "\<forall>d. ct_description ct = Some d \<longrightarrow> length d \<le> 2000"
  shows "erreurs_creerTache ct = []"
  using assms by (cases "ct_description ct") (simp_all add: erreurs_creerTache_def)

lemma route_creerTache_valide:
  assumes "3 \<le> length (trim (ct_titre ct))" and "length (trim (ct_titre ct)) \<le> 100"
    and "\<forall>d. ct_description ct = Some d \<longrightarrow> length d \<le> 2000"
  shows "route_creerTache ev [] r ct m
           = creerTache ev [] r (ct\<lparr>ct_titre := trim (ct_titre ct)\<rparr>) m"
  using erreurs_creerTache_aucune [of "ct\<lparr>ct_titre := trim (ct_titre ct)\<rparr>"] assms
  by (simp add: route_creerTache_def Let_def)

lemma route_creerTache_statut_ignore:
  "route_creerTache ev autres r (ct\<lparr>ct_statut := x\<rparr>) m = route_creerTache ev autres r ct m"
proof -
  have c: "(ct\<lparr>ct_statut := x\<rparr>)\<lparr>ct_titre := trim (ct_titre (ct\<lparr>ct_statut := x\<rparr>))\<rparr>
             = (ct\<lparr>ct_titre := trim (ct_titre ct)\<rparr>)\<lparr>ct_statut := x\<rparr>"
    by simp
  have e: "erreurs_creerTache ((ct\<lparr>ct_titre := trim (ct_titre ct)\<rparr>)\<lparr>ct_statut := x\<rparr>)
             = erreurs_creerTache (ct\<lparr>ct_titre := trim (ct_titre ct)\<rparr>)"
    by (simp add: erreurs_creerTache_def)
  show ?thesis
    unfolding route_creerTache_def Let_def c e by (rule creerTache_statut_ignore)
qed

text \<open>
  C5, as amended. POST /taches trims the title first. A trimmed title shorter than 3 or
  longer than 100 characters is refused with 400, and so is, after it, a description
  longer than 2000 characters; nothing is written. Past these checks, a list identifier
  of a list that is missing or belongs to another user is refused with 403 (list not
  found or not authorised). Otherwise, with a fresh identifier and an owner who is a
  stored user, the answer is 201 and one task is appended: the trimmed title, due date
  (a calendar date) and list as supplied, priority as supplied or MOYENNE when absent,
  description as supplied except that an empty description is stored as null, status
  A_FAIRE whatever status was supplied, no completion date. A GetTask of the owner
  straight after returns that same task.
\<close>

theorem C5_creerTache:
  "(length (trim (ct_titre ct)) < 3 \<or> 100 < length (trim (ct_titre ct)) \<longrightarrow>
      route_creerTache ev autres r ct m = ((400, Echec (Validation message_titre)), m))
   \<and> (3 \<le> length (trim (ct_titre ct)) \<and> length (trim (ct_titre ct)) \<le> 100
      \<and> ct_description ct = Some d \<and> 2000 < length d \<longrightarrow>
      route_creerTache ev autres r ct m = ((400, Echec (Validation message_description)), m))
   \<and> (3 \<le> length (trim (ct_titre ct)) \<and> length (trim (ct_titre ct)) \<le> 100
      \<and> (\<forall>d. ct_description ct = Some d \<longrightarrow> length d \<le> 2000)
      \<and> ct_liste_id ct = Some l \<and> liste_refusee m r l \<longrightarrow>
      route_creerTache ev [] r ct m = ((403, Echec ListeNonTrouveeOuNonAutorisee), m))
   \<and> (3 \<le> length (trim (ct_titre ct)) \<and> length (trim (ct_titre ct)) \<le> 100
      \<and> (\<forall>d. ct_description ct = Some d \<longrightarrow> length d \<le> 2000)
      \<and> \<not> (\<exists>l. ct_liste_id ct = Some l \<and> liste_refusee m r l)
      \<and> uuidv4 ev \<notin> t_id ` set (taches m) \<and> r \<in> u_id ` set (utilisateurs m) \<longrightarrow>
      taches (snd (route_creerTache ev [] r ct m)) = taches m @
        [\<lparr>t_id = uuidv4 ev, titre = trim (ct_titre ct),
             description = ou_null (ct_description ct), statut = A_FAIRE,
             priorite = (case ct_priorite ct of None \<Rightarrow> MOYENNE | Some p \<Rightarrow> p),
             date_echeance = ct_date_echeance ct, date_creation = maintenant ev,
             date_completion = None, utilisateur_id = r, liste_id = ct_liste_id ct\<rparr>]
      \<and> fst (route_creerTache ev [] r ct m) =
          (201, Succes (D_tache (Some (inclure_liste (snd (route_creerTache ev [] r ct m))
            \<lparr>t_id = uuidv4 ev, titre = trim (ct_titre ct),
             description = ou_null (ct_description ct), statut = A_FAIRE,
             priorite = (case ct_priorite ct of None \<Rightarrow> MOYENNE | Some p \<Rightarrow> p),
             date_echeance = ct_date_echeance ct, date_creation = maintenant ev,
             date_completion = None, utilisateur_id = r, liste_id = ct_liste_id ct\<rparr>))))
      \<and> detailTache r (uuidv4 ev) (snd (route_creerTache ev [] r ct m)) =
          (200, Succes (D_tache (Some (inclure_liste (snd (route_creerTache ev [] r ct m))
            \<lparr>t_id = uuidv4 ev, titre = trim (ct_titre ct),
             description = ou_null (ct_description ct), statut = A_FAIRE,
             priorite = (case ct_priorite ct of None \<Rightarrow> MOYENNE | Some p \<Rightarrow> p),
             date_echeance = ct_date_echeance ct, date_creation = maintenant ev,
             date_completion = None, utilisateur_id = r, liste_id = ct_liste_id ct\<rparr>)))))
   \<and> route_creerTache ev autres r (ct\<lparr>ct_statut := x\<rparr>) m = route_creerTache ev autres r ct m"
proof (intro conjI impI)
  let ?ct = "ct\<lparr>ct_titre := trim (ct_titre ct)\<rparr>"
  assume "length (trim (ct_titre ct)) < 3 \<or> 100 < length (trim (ct_titre ct))"
  then obtain es where "erreurs_creerTache ?ct = message_titre # es"
    using erreurs_creerTache_titre [of ?ct] by auto
  then show "route_creerTache ev autres r ct m
               = ((400, Echec (Validation message_titre)), m)"
    by (simp add: route_creerTache_def Let_def creerTache_def)
next
  let ?ct = "ct\<lparr>ct_titre := trim (ct_titre ct)\<rparr>"
  assume "3 \<le> length (trim (ct_titre ct)) \<and> length (trim (ct_titre ct)) \<le> 100
      \<and> ct_description ct = Some d \<and> 2000 < length d"
  then have "erreurs_creerTache ?ct = [message_description]"
    using erreurs_creerTache_description [of ?ct d] by simp
  then show "route_creerTache ev autres r ct m
               = ((400, Echec (Validation message_description)), m)"
    by (simp add: route_creerTache_def Let_def creerTache_def)
next
  let ?ct = "ct\<lparr>ct_titre := trim (ct_titre ct)\<rparr>"
  assume a: "3 \<le> length (trim (ct_titre ct)) \<and> length (trim (ct_titre ct)) \<le> 100
      \<and> (\<forall>d. ct_description ct = Some d \<longrightarrow> length d \<le> 2000)
      \<and> ct_liste_id ct = Some l \<and> liste_refusee m r l"
  then have e: "route_creerTache ev [] r ct m = creerTache ev [] r ?ct m"
    using route_creerTache_valide [of ct ev r m] by blast
  show "route_creerTache ev [] r ct m = ((403, Echec ListeNonTrouveeOuNonAutorisee), m)"
    unfolding e using a creerTache_refus [of ?ct l m r ev] by simp
next
  let ?ct = "ct\<lparr>ct_titre := trim (ct_titre ct)\<rparr>"
  assume a: "3 \<le> length (trim (ct_titre ct)) \<and> length (trim (ct_titre ct)) \<le> 100
      \<and> (\<forall>d. ct_description ct = Some d \<longrightarrow> length d \<le> 2000)
      \<and> \<not> (\<exists>l. ct_liste_id ct = Some l \<and> liste_refusee m r l)
      \<and> uuidv4 ev \<notin> t_id ` set (taches m) \<and> r \<in> u_id ` set (utilisateurs m)"
  then have e: "route_creerTache ev [] r ct m = creerTache ev [] r ?ct m"
    using route_creerTache_valide [of ct ev r m] by blast
  have li: "\<not> (\<exists>l. ct_liste_id ?ct = Some l \<and> liste_refusee m r l)"
    and id: "uuidv4 ev \<notin> t_id ` set (taches m)"
    and us: "r \<in> u_id ` set (utilisateurs m)"
    and t3: "3 \<le> length (ct_titre ?ct)" and t100: "length (ct_titre ?ct) \<le> 100"
    and de: "\<forall>x. ct_description ?ct = Some x \<longrightarrow> length x \<le> 2000"
    using a by simp_all
  note c = creerTache_cree [OF li id us t3 t100 de]
  show "taches (snd (route_creerTache ev [] r ct m)) = taches m @
        [\<lparr>t_id = uuidv4 ev, titre = trim (ct_titre ct),
             description = ou_null (ct_description ct), statut = A_FAIRE,
             priorite = (case ct_priorite ct of None \<Rightarrow> MOYENNE | Some p \<Rightarrow> p),
             date_echeance = ct_date_echeance ct, date_creation = maintenant ev,
             date_completion = None, utilisateur_id = r, liste_id = ct_liste_id ct\<rparr>]"
    unfolding e c(1) by simp
  show "fst (route_creerTache ev [] r ct m) =
          (201, Succes (D_tache (Some (inclure_liste (snd (route_creerTache ev [] r ct m))
            \<lparr>t_id = uuidv4 ev, titre = trim (ct_titre ct),
             description = ou_null (ct_description ct), statut = A_FAIRE,
             priorite = (case ct_priorite ct of None \<Rightarrow> MOYENNE | Some p \<Rightarrow> p),
             date_echeance = ct_date_echeance ct, date_creation = maintenant ev,
             date_completion = None, utilisateur_id = r, liste_id = ct_liste_id ct\<rparr>))))"
    unfolding e using c(2) by simp
  show "detailTache r (uuidv4 ev) (snd (route_creerTache ev [] r ct m)) =
          (200, Succes (D_tache (Some (inclure_liste (snd (route_creerTache ev [] r ct m))
            \<lparr>t_id = uuidv4 ev, titre = trim (ct_titre ct),
             description = ou_null (ct_description ct), statut = A_FAIRE,
             priorite = (case ct_priorite ct of None \<Rightarrow> MOYENNE | Some p \<Rightarrow> p),
             date_echeance = ct_date_echeance ct, date_creation = maintenant ev,
             date_completion = None, utilisateur_id = r, liste_id = ct_liste_id ct\<rparr>))))"
    unfolding e using c(3) by simp
next
  show "route_creerTache ev autres r (ct\<lparr>ct_statut := x\<rparr>) m
          = route_creerTache ev autres r ct m"
    by (rule route_creerTache_statut_ignore)
qed

theorem C5_creerTache_witness:
  "detailTache 1 999
     (snd (route_creerTache env_exemple [] 1 (voyage\<lparr>ct_titre := ''  Plan trip ''\<rparr>)
        monde_exemple)) =
     (200, Succes (D_tache (Some
        (\<lparr>t_id = 999, titre = ''Plan trip'', description = None, statut = A_FAIRE,
          priorite = MOYENNE, date_echeance = Some 19800, date_creation = 1704067200000,
          date_completion = None, utilisateur_id = 1, liste_id = Some 10\<rparr>,
         Some \<lparr>r_id = 10, r_nom = ''Work'', r_couleur = ''#FF0000''\<rparr>))))
   \<and> route_creerTache env_exemple [] 2 (voyage\<lparr>ct_titre := ''  Plan trip ''\<rparr>) monde_exemple
       = ((403, Echec ListeNonTrouveeOuNonAutorisee), monde_exemple)
   \<and> route_creerTache env_exemple [] 1 (voyage\<lparr>ct_titre := '' ab ''\<rparr>) monde_exemple
       = ((400, Echec (Validation message_titre)), monde_exemple)"
proof -
  let ?V = "voyage\<lparr>ct_titre := ''  Plan trip ''\<rparr>"
  let ?M = "snd (route_creerTache env_exemple [] 1 ?V monde_exemple)"
  let ?T = "\<lparr>t_id = 999, titre = ''Plan trip'', description = None, statut = A_FAIRE,
          priorite = MOYENNE, date_echeance = Some 19800, date_creation = 1704067200000,
          date_completion = None, utilisateur_id = 1, liste_id = Some 10\<rparr>"
  have a: "\<not> liste_refusee monde_exemple 1 10" and b: "liste_refusee monde_exemple 2 10"
    by (simp_all add: liste_refusee_def trouverParId_liste_def exemple_defs)
  have t: "trim ''  Plan trip '' = ''Plan trip''" and u: "trim '' ab '' = ''ab''"
    by (simp_all add: trim_def estBlanc_def)
  have d: "detailTache 1 999 ?M = (200, Succes (D_tache (Some (inclure_liste ?M ?T))))"
    using a C5_creerTache [where ct = ?V and m = monde_exemple and r = 1
        and ev = env_exemple]
    by (simp add: t voyage_def ou_null_def exemple_defs)
  have i: "inclure_liste ?M ?T = (?T, Some \<lparr>r_id = 10, r_nom = ''Work'', r_couleur = ''#FF0000''\<rparr>)"
    by (simp add: t voyage_def route_creerTache_def erreurs_creerTache_def creerTache_def
      creer_tache_def liste_refusee_def trouverParId_liste_def ou_null_def inclure_liste_def
      resume_def Let_def exemple_defs)
  have r: "route_creerTache env_exemple [] 2 ?V monde_exemple
       = ((403, Echec ListeNonTrouveeOuNonAutorisee), monde_exemple)"
    using b C5_creerTache [where ct = ?V and m = monde_exemple and r = 2
        and ev = env_exemple and l = 10]
    by (simp add: t voyage_def)
  have c: "route_creerTache env_exemple [] 1 (voyage\<lparr>ct_titre := '' ab ''\<rparr>) monde_exemple
       = ((400, Echec (Validation message_titre)), monde_exemple)"
    using C5_creerTache [where ct = "voyage\<lparr>ct_titre := '' ab ''\<rparr>" and m = monde_exemple
        and r = 1 and ev = env_exemple and autres = "[]"]
    by (simp add: u)
  show ?thesis using d i r c by simp
qed

text \<open>
  The claim as stated fails on the description, and on a title with white space
  around it: Alice creates a task with an empty description and a title between
  spaces, and the task she reads back has no description at all and the title without
  the spaces.
\<close>

theorem C5_creerTache_counterexample:
  "ct_description (voyage\<lparr>ct_titre := ''  Plan trip ''\<rparr>) = Some []
   \<and> ct_titre (voyage\<lparr>ct_titre := ''  Plan trip ''\<rparr>) = ''  Plan trip ''
   \<and> detailTache 1 999
       (snd (route_creerTache env_exemple [] 1 (voyage\<lparr>ct_titre := ''  Plan trip ''\<rparr>)
          monde_exemple)) =
     (200, Succes (D_tache (Some
        (\<lparr>t_id = 999, titre = ''Plan trip'', description = None, statut = A_FAIRE,
          priorite = MOYENNE, date_echeance = Some 19800, date_creation = 1704067200000,
          date_completion = None, utilisateur_id = 1, liste_id = Some 10\<rparr>,
         Some \<lparr>r_id = 10, r_nom = ''Work'', r_couleur = ''#FF0000''\<rparr>))))"
proof -
  have t: "trim ''  Plan trip '' = ''Plan trip''"
    by (simp add: trim_def estBlanc_def)
  show ?thesis
    by (simp add: t voyage_def route_creerTache_def erreurs_creerTache_def creerTache_def
      creer_tache_def liste_refusee_def trouverParId_liste_def ou_null_def detailTache_def
      trouverParId_tache_def inclure_liste_def resume_def Let_def exemple_defs)
qed

text \<open>
  The handler called without the route leaves the length of the title to the model:
  a title of two characters, with no message from a validator, is answered 500.
\<close>

lemma creerTache_sans_route:
  "creerTache env_exemple [] 1 (voyage\<lparr>ct_titre := ''ab''\<rparr>) monde_exemple
     = ((500, Echec ErreurInterne), monde_exemple)"
  by (rule creerTache_modele_refuse)
    (simp_all add: voyage_def liste_refusee_def trouverParId_liste_def exemple_defs)

section \<open>The completion date\<close>



















section \<open>Deleting a list\<close>

lemma supprimerListe_proprietaire:
  assumes "trouverParId_liste m i = Some l" and "l_utilisateur_id l = r"
  shows "supprimerListe r i m =
           ((200, Succes (D_message ListeSupprimee)),
            m\<lparr>listes := filter (\<lambda>l. l_id l \<noteq> i) (listes m),
              taches := map (\<lambda>t. if liste_id t = Some i then t\<lparr>liste_id := None\<rparr> else t)
                          (taches m),
              journal := journal m @ [UPDATE_taches_liste_null i, DELETE_liste i]\<rparr>)"
  using assms
  by (simp add: supprimerListe_def supprimer_liste_def dissocierListe_def o_def cong: if_cong)

lemma dissocierListe_taches:
  "taches (dissocierListe i m)
     = map (\<lambda>t. if liste_id t = Some i then t\<lparr>liste_id := None\<rparr> else t) (taches m)"
  by (simp add: dissocierListe_def)

lemma dissocierListe_sans_reference:
  "\<forall>t\<in>set (taches (dissocierListe i m)). liste_id t \<noteq> Some i"
  unfolding dissocierListe_taches by auto

lemma supprimer_liste_sans_reference:
  assumes "\<forall>t\<in>set (taches m). liste_id t \<noteq> Some i"
  shows "taches (supprimer_liste i m) = taches m"
proof -
  have "map (\<lambda>t. if liste_id t = Some i then t\<lparr>liste_id := None\<rparr> else t) (taches m)
          = map (\<lambda>t. t) (taches m)"
    using assms by (intro map_cong refl) simp
  then show ?thesis by (simp add: supprimer_liste_def)
qed

text \<open>
  C7. DeleteList on a list the requester owns is answered 200 and runs two statements,
  \<open>dissocierListe\<close> and then \<open>supprimer_liste\<close>. In the state between the two no task
  is removed, every task that referenced the list has \<open>liste_id\<close> null and is otherwise
  unchanged, every other task is unchanged, no task references the list, and the list
  is still a row of the list table. The deletion that follows finds no task left for
  the foreign key to reset: it changes no task. At the end the task table is the old
  one, row for row, with \<open>liste_id\<close> null where it was the list; the list is no longer a
  row of the list table and the other lists are untouched; the statement that
  dissociates the tasks is sent before the one that deletes the list.
\<close>

theorem C7_supprimerListe:
  assumes "trouverParId_liste m i = Some l" and "l_utilisateur_id l = r"
  shows "fst (supprimerListe r i m) = (200, Succes (D_message ListeSupprimee))
   \<and> taches (snd (supprimerListe r i m))
       = map (\<lambda>t. if liste_id t = Some i then t\<lparr>liste_id := None\<rparr> else t) (taches m)
   \<and> map t_id (taches (snd (supprimerListe r i m))) = map t_id (taches m)
   \<and> (\<forall>t\<in>set (taches (snd (supprimerListe r i m))). liste_id t \<noteq> Some i)
   \<and> listes (snd (supprimerListe r i m)) = filter (\<lambda>l. l_id l \<noteq> i) (listes m)
   \<and> i \<notin> l_id ` set (listes (snd (supprimerListe r i m)))
   \<and> trouverParId_liste (snd (supprimerListe r i m)) i = None
   \<and> historique (snd (supprimerListe r i m)) = historique m
   \<and> journal (snd (supprimerListe r i m))
       = journal m @ [UPDATE_taches_liste_null i, DELETE_liste i]
   \<and> snd (supprimerListe r i m) = supprimer_liste i (dissocierListe i m)
   \<and> taches (dissocierListe i m)
       = map (\<lambda>t. if liste_id t = Some i then t\<lparr>liste_id := None\<rparr> else t) (taches m)
   \<and> (\<forall>t\<in>set (taches (dissocierListe i m)). liste_id t \<noteq> Some i)
   \<and> listes (dissocierListe i m) = listes m
   \<and> trouverParId_liste (dissocierListe i m) i = Some l
   \<and> journal (dissocierListe i m) = journal m @ [UPDATE_taches_liste_null i]
   \<and> taches (supprimer_liste i (dissocierListe i m)) = taches (dissocierListe i m)"
proof -
  note e = supprimerListe_proprietaire [OF assms]
  have 1: "fst (supprimerListe r i m) = (200, Succes (D_message ListeSupprimee))"
    unfolding e by simp
  have 2: "taches (snd (supprimerListe r i m))
       = map (\<lambda>t. if liste_id t = Some i then t\<lparr>liste_id := None\<rparr> else t) (taches m)"
    unfolding e by simp
  have 3: "map t_id (taches (snd (supprimerListe r i m))) = map t_id (taches m)"
    unfolding 2 by (simp add: o_def if_distrib cong: if_cong)
  have 4: "\<forall>t\<in>set (taches (snd (supprimerListe r i m))). liste_id t \<noteq> Some i"
    unfolding 2 by auto
  have 5: "listes (snd (supprimerListe r i m)) = filter (\<lambda>l. l_id l \<noteq> i) (listes m)"
    unfolding e by simp
  have 6: "i \<notin> l_id ` set (listes (snd (supprimerListe r i m)))"
    unfolding 5 by auto
  have 7: "trouverParId_liste (snd (supprimerListe r i m)) i = None"
    using 6 find_None_cle [of l_id i "listes (snd (supprimerListe r i m))"]
    by (simp add: trouverParId_liste_def)
  have 8: "historique (snd (supprimerListe r i m)) = historique m"
    unfolding e by simp
  have 9: "journal (snd (supprimerListe r i m))
       = journal m @ [UPDATE_taches_liste_null i, DELETE_liste i]"
    unfolding e by simp
  have 10: "snd (supprimerListe r i m) = supprimer_liste i (dissocierListe i m)"
    using assms by (simp add: supprimerListe_def)
  have 11: "taches (dissocierListe i m)
       = map (\<lambda>t. if liste_id t = Some i then t\<lparr>liste_id := None\<rparr> else t) (taches m)"
    by (rule dissocierListe_taches)
  have 12: "\<forall>t\<in>set (taches (dissocierListe i m)). liste_id t \<noteq> Some i"
    by (rule dissocierListe_sans_reference)
  have 13: "listes (dissocierListe i m) = listes m"
    by (simp add: dissocierListe_def)
  have 14: "trouverParId_liste (dissocierListe i m) i = Some l"
    using assms(1) by (simp add: trouverParId_liste_def dissocierListe_def)
  have 15: "journal (dissocierListe i m) = journal m @ [UPDATE_taches_liste_null i]"
    by (simp add: dissocierListe_def)
  have 16: "taches (supprimer_liste i (dissocierListe i m)) = taches (dissocierListe i m)"
    by (rule supprimer_liste_sans_reference [OF 12])
  show ?thesis
    by (intro conjI) (rule 1 2 3 4 5 6 7 8 9 10 11 12 13 14 15 16)+
qed

theorem C7_supprimerListe_witness:
  "trouverParId_liste monde_exemple 10 = Some travail \<and> l_utilisateur_id travail = 1
   \<and> taches (snd (supprimerListe 1 10 monde_exemple))
       = [lait\<lparr>liste_id := None\<rparr>, loyer\<lparr>liste_id := None\<rparr>, appel, livre, vache]
   \<and> listes (snd (supprimerListe 1 10 monde_exemple)) = [maison]
   \<and> journal (snd (supprimerListe 1 10 monde_exemple))
       = [UPDATE_taches_liste_null 10, DELETE_liste 10]
   \<and> taches (dissocierListe 10 monde_exemple)
       = [lait\<lparr>liste_id := None\<rparr>, loyer\<lparr>liste_id := None\<rparr>, appel, livre, vache]
   \<and> listes (dissocierListe 10 monde_exemple) = [travail, maison]
   \<and> trouverParId_liste (dissocierListe 10 monde_exemple) 10 = Some travail
   \<and> taches (supprimer_liste 10 (dissocierListe 10 monde_exemple))
       = taches (dissocierListe 10 monde_exemple)"
proof -
  have a: "trouverParId_liste monde_exemple 10 = Some travail"
    and b: "l_utilisateur_id travail = 1"
    by (simp_all add: trouverParId_liste_def exemple_defs)
  note c = C7_supprimerListe [OF a b]
  have 1: "taches (snd (supprimerListe 1 10 monde_exemple))
       = [lait\<lparr>liste_id := None\<rparr>, loyer\<lparr>liste_id := None\<rparr>, appel, livre, vache]"
    using c [THEN conjunct2, THEN conjunct1] by (simp add: exemple_defs)
  have 2: "listes (snd (supprimerListe 1 10 monde_exemple)) = [maison]"
    using c [THEN conjunct2, THEN conjunct2, THEN conjunct2, THEN conjunct2, THEN conjunct1] by (simp add: exemple_defs)
  have 3: "journal (snd (supprimerListe 1 10 monde_exemple))
       = [UPDATE_taches_liste_null 10, DELETE_liste 10]"
    using c [THEN conjunct2, THEN conjunct2, THEN conjunct2, THEN conjunct2, THEN conjunct2, THEN conjunct2, THEN conjunct2, THEN conjunct2, THEN conjunct1] by (simp add: monde_exemple_def)
  have 4: "taches (dissocierListe 10 monde_exemple)
       = [lait\<lparr>liste_id := None\<rparr>, loyer\<lparr>liste_id := None\<rparr>, appel, livre, vache]"
    using c [THEN conjunct2, THEN conjunct2, THEN conjunct2, THEN conjunct2, THEN conjunct2, THEN conjunct2, THEN conjunct2, THEN conjunct2, THEN conjunct2, THEN conjunct2, THEN conjunct1] by (simp add: exemple_defs)
  have 5: "listes (dissocierListe 10 monde_exemple) = [travail, maison]"
    using c [THEN conjunct2, THEN conjunct2, THEN conjunct2, THEN conjunct2, THEN conjunct2, THEN conjunct2, THEN conjunct2, THEN conjunct2, THEN conjunct2, THEN conjunct2, THEN conjunct2, THEN conjunct2, THEN conjunct1] by (simp add: monde_exemple_def)
  have 6: "trouverParId_liste (dissocierListe 10 monde_exemple) 10 = Some travail"
    by (rule c [THEN conjunct2, THEN conjunct2, THEN conjunct2, THEN conjunct2, THEN conjunct2, THEN conjunct2, THEN conjunct2, THEN conjunct2, THEN conjunct2, THEN conjunct2, THEN conjunct2, THEN conjunct2, THEN conjunct2, THEN conjunct1])
  have 7: "taches (supprimer_liste 10 (dissocierListe 10 monde_exemple))
       = taches (dissocierListe 10 monde_exemple)"
    by (rule c [THEN conjunct2, THEN conjunct2, THEN conjunct2, THEN conjunct2, THEN conjunct2, THEN conjunct2, THEN conjunct2, THEN conjunct2, THEN conjunct2, THEN conjunct2, THEN conjunct2, THEN conjunct2, THEN conjunct2, THEN conjunct2, THEN conjunct2])
  show ?thesis
    by (intro conjI) (rule a b 1 2 3 4 5 6 7)+
qed

section \<open>Listing tasks\<close>

lemma cle_tri_ordre:
  assumes "cle_tri a \<le> cle_tri b"
  shows "(date_echeance a = None \<longrightarrow> date_echeance b = None)
       \<and> (\<forall>x y. date_echeance a = Some x \<and> date_echeance b = Some y \<longrightarrow> x \<le> y)
       \<and> (date_echeance a = date_echeance b \<longrightarrow> date_creation b \<le> date_creation a)"
  using assms
  by (cases "date_echeance a"; cases "date_echeance b")
    (auto simp: cle_tri_def less_eq_prod_def less_prod_def)

lemma map_fst_inclure: "map fst (map (inclure_liste m) ts) = ts"
  by (induction ts) (simp_all add: fst_inclure_liste)

lemma page_triee:
  "sorted_wrt (\<lambda>a b. cle_tri a \<le> cle_tri b) (take n (drop k (sort_key cle_tri ts)))"
proof -
  have "sorted (map cle_tri (sort_key cle_tri ts))" by (rule sorted_sort_key)
  then have "sorted_wrt (\<lambda>a b. cle_tri a \<le> cle_tri b) (sort_key cle_tri ts)"
    by (simp add: sorted_map)
  then show ?thesis by (intro sorted_wrt_take sorted_wrt_drop)
qed

lemma listerParUtilisateur_Some:
  assumes "listerParUtilisateur m uid opts = Some (rows, count)"
  shows "map fst rows = take (nat (o_limit opts)) (drop (nat ((o_page opts - 1) * o_limit opts))
                          (sort_key cle_tri (filter (filtre_where uid opts) (taches m))))"
    and "count = int (length (filter (filtre_where uid opts) (taches m)))"
    and "0 \<le> o_limit opts" and "0 \<le> (o_page opts - 1) * o_limit opts"
  using assms
  by (auto simp: listerParUtilisateur_def Let_def o_def fst_inclure_liste split: if_splits)

lemma listerTaches_cas [case_names erreur page]:
  obtains (erreur) "listerTaches r q m = (500, Echec ErreurInterne)"
      "ou_defaut (q_limit q) defaultPageLimit < 0
       \<or> (ou_defaut (q_page q) defaultPage - 1) * ou_defaut (q_limit q) defaultPageLimit < 0"
  | (page) rows count where
      "listerParUtilisateur m r
         \<lparr>o_page = ou_defaut (q_page q) defaultPage,
          o_limit = ou_defaut (q_limit q) defaultPageLimit, o_statut = q_statut q,
          o_priorite = q_priorite q, o_liste_id = q_liste_id q\<rparr> = Some (rows, count)"
      "listerTaches r q m =
         (200, Succes (D_taches_page rows (compterParStatut m r)
            \<lparr>page = ou_defaut (q_page q) defaultPage,
             limit = ou_defaut (q_limit q) defaultPageLimit, pg_total = count,
             totalPages = plafond count (ou_defaut (q_limit q) defaultPageLimit)\<rparr>))"
proof -
  define opts where "opts = \<lparr>o_page = ou_defaut (q_page q) defaultPage,
          o_limit = ou_defaut (q_limit q) defaultPageLimit, o_statut = q_statut q,
          o_priorite = q_priorite q, o_liste_id = q_liste_id q\<rparr>"
  show ?thesis
  proof (cases "listerParUtilisateur m r opts")
    case None
    then have "o_limit opts < 0 \<or> (o_page opts - 1) * o_limit opts < 0"
      by (auto simp: listerParUtilisateur_def Let_def split: if_splits)
    moreover have "listerTaches r q m = (500, Echec ErreurInterne)"
      using None unfolding listerTaches_def Let_def opts_def [symmetric] by simp
    ultimately show ?thesis using erreur by (simp add: opts_def)
  next
    case (Some p)
    obtain rows count where p: "p = (rows, count)" by (cases p)
    have "listerTaches r q m =
         (200, Succes (D_taches_page rows (compterParStatut m r)
            \<lparr>page = ou_defaut (q_page q) defaultPage,
             limit = ou_defaut (q_limit q) defaultPageLimit, pg_total = count,
             totalPages = plafond count (ou_defaut (q_limit q) defaultPageLimit)\<rparr>))"
      using Some p unfolding listerTaches_def Let_def opts_def [symmetric] by simp
    then show ?thesis using page [of rows count] Some p by (simp add: opts_def)
  qed
qed

lemma plafond_div: "plafond a b = - ((- a) div b)"
proof -
  have "- (real_of_int a / real_of_int b) = real_of_int (- a) / real_of_int b"
    by simp
  then have "\<lfloor>- (real_of_int a / real_of_int b)\<rfloor> = (- a) div b"
    by (simp only: floor_divide_of_int_eq)
  then show ?thesis by (simp add: plafond_def ceiling_def)
qed

lemma plafond_bornes:
  assumes "0 < b"
  shows "a \<le> plafond a b * b" and "(plafond a b - 1) * b < a"
proof -
  have rb: "0 < real_of_int b" using assms by simp
  have "real_of_int a / real_of_int b \<le> real_of_int (plafond a b)"
    unfolding plafond_def by (rule le_of_int_ceiling)
  then have "real_of_int a \<le> real_of_int (plafond a b) * real_of_int b"
    using rb by (simp add: pos_divide_le_eq)
  then have "real_of_int a \<le> real_of_int (plafond a b * b)" by simp
  then show "a \<le> plafond a b * b" by (simp only: of_int_le_iff)
  have "real_of_int (plafond a b) - 1 < real_of_int a / real_of_int b"
    unfolding plafond_def using ceiling_correct [of "real_of_int a / real_of_int b"] by simp
  then have "(real_of_int (plafond a b) - 1) * real_of_int b < real_of_int a"
    using rb by (simp add: pos_less_divide_eq)
  then have "real_of_int ((plafond a b - 1) * b) < real_of_int a" by simp
  then show "(plafond a b - 1) * b < a" by (simp only: of_int_less_iff)
qed

text \<open>
  C8. In every answer of ListTasks the tasks are in this order: a task with a due date
  never comes after a task without one, due dates never decrease, and two tasks with
  the same due date (or both without) are in order of descending creation time. The
  rows are a page cut from the sorted list of all the owner's tasks that match the
  filters.
\<close>

theorem C8_ordre_liste:
  assumes "listerTaches r q m = (200, Succes (D_taches_page rows c p))"
  shows "sorted_wrt
           (\<lambda>a b. (date_echeance a = None \<longrightarrow> date_echeance b = None)
                 \<and> (\<forall>x y. date_echeance a = Some x \<and> date_echeance b = Some y \<longrightarrow> x \<le> y)
                 \<and> (date_echeance a = date_echeance b
                      \<longrightarrow> date_creation b \<le> date_creation a))
           (map fst rows)
   \<and> (\<exists>toutes. map fst rows = take (nat (limit p)) (drop (nat ((page p - 1) * limit p)) toutes)
         \<and> sorted (map cle_tri toutes)
         \<and> set toutes = {t \<in> set (taches m). filtre_where r
              \<lparr>o_page = page p, o_limit = limit p, o_statut = q_statut q,
               o_priorite = q_priorite q, o_liste_id = q_liste_id q\<rparr> t}
         \<and> length toutes = length (filter (filtre_where r
              \<lparr>o_page = page p, o_limit = limit p, o_statut = q_statut q,
               o_priorite = q_priorite q, o_liste_id = q_liste_id q\<rparr>) (taches m)))"
proof (cases rule: listerTaches_cas [of r q m])
  case erreur
  then show ?thesis using assms by simp
next
  case (page rows' count)
  have r: "rows' = rows" and p: "p = \<lparr>page = ou_defaut (q_page q) defaultPage,
             limit = ou_defaut (q_limit q) defaultPageLimit, pg_total = count,
             totalPages = plafond count (ou_defaut (q_limit q) defaultPageLimit)\<rparr>"
    using assms page(2) by simp_all
  let ?opts = "\<lparr>o_page = page p, o_limit = limit p, o_statut = q_statut q,
               o_priorite = q_priorite q, o_liste_id = q_liste_id q\<rparr>"
  let ?toutes = "sort_key cle_tri (filter (filtre_where r ?opts) (taches m))"
  have l: "listerParUtilisateur m r ?opts = Some (rows, count)"
    using page(1) r p by simp
  have m: "map fst rows = take (nat (limit p)) (drop (nat ((page p - 1) * limit p)) ?toutes)"
    using listerParUtilisateur_Some(1) [OF l] by simp
  have "sorted_wrt (\<lambda>a b. cle_tri a \<le> cle_tri b) (map fst rows)"
    unfolding m by (rule page_triee)
  then have 1: "sorted_wrt
           (\<lambda>a b. (date_echeance a = None \<longrightarrow> date_echeance b = None)
                 \<and> (\<forall>x y. date_echeance a = Some x \<and> date_echeance b = Some y \<longrightarrow> x \<le> y)
                 \<and> (date_echeance a = date_echeance b
                      \<longrightarrow> date_creation b \<le> date_creation a))
           (map fst rows)"
    by (rule sorted_wrt_mono_rel [rotated]) (rule cle_tri_ordre)
  have 2: "sorted (map cle_tri ?toutes)" by (rule sorted_sort_key)
  have 3: "set ?toutes = {t \<in> set (taches m). filtre_where r ?opts t}" by auto
  have 4: "length ?toutes = length (filter (filtre_where r ?opts) (taches m))" by simp
  show ?thesis using 1 m 2 3 4 by blast
qed


theorem C8_ordre_liste_witness:
  "listerTaches 1 requete_vide monde_exemple =
     (200, Succes (D_taches_page
        [(loyer, Some (resume travail)), (lait, Some (resume travail)), (livre, None),
         (appel, None)]
        \<lparr>total = 4, n_A_FAIRE = 2, n_EN_COURS = 1, n_TERMINEE = 1\<rparr>
        \<lparr>page = 1, limit = 20, pg_total = 4, totalPages = 1\<rparr>))
   \<and> sorted_wrt
         (\<lambda>a b. (date_echeance a = None \<longrightarrow> date_echeance b = None)
               \<and> (\<forall>x y. date_echeance a = Some x \<and> date_echeance b = Some y \<longrightarrow> x \<le> y)
               \<and> (date_echeance a = date_echeance b
                    \<longrightarrow> date_creation b \<le> date_creation a))
         [loyer, lait, livre, appel]"
proof -
  have e: "listerTaches 1 requete_vide monde_exemple =
     (200, Succes (D_taches_page
        [(loyer, Some (resume travail)), (lait, Some (resume travail)), (livre, None),
         (appel, None)]
        \<lparr>total = 4, n_A_FAIRE = 2, n_EN_COURS = 1, n_TERMINEE = 1\<rparr>
        \<lparr>page = 1, limit = 20, pg_total = 4, totalPages = 1\<rparr>))"
    by (simp add: listerTaches_def listerParUtilisateur_def requete_vide_def ou_defaut_def
        defaultPage_def defaultPageLimit_def filtre_where_def vrai_def cle_tri_def
        compterParStatut_def incrementer_def plafond_div inclure_liste_def
        trouverParId_liste_def resume_def exemple_defs)
  have m: "map fst [(loyer, Some (resume travail)), (lait, Some (resume travail)),
             (livre, None), (appel, None)] = [loyer, lait, livre, appel]"
    by simp
  from e C8_ordre_liste [OF e, THEN conjunct1, unfolded m] show ?thesis by (rule conjI)
qed


section \<open>Counters and pagination\<close>

lemma fold_incrementer_total:
  "total (fold (\<lambda>t c. incrementer (statut t) c) ts c0) = total c0"
  by (induction ts arbitrary: c0) (simp_all add: incrementer_def split: statut.split)

lemma fold_incrementer_A_FAIRE:
  "n_A_FAIRE (fold (\<lambda>t c. incrementer (statut t) c) ts c0)
     = n_A_FAIRE c0 + int (length (filter (\<lambda>t. statut t = A_FAIRE) ts))"
  by (induction ts arbitrary: c0) (simp_all add: incrementer_def split: statut.split)

lemma fold_incrementer_EN_COURS:
  "n_EN_COURS (fold (\<lambda>t c. incrementer (statut t) c) ts c0)
     = n_EN_COURS c0 + int (length (filter (\<lambda>t. statut t = EN_COURS) ts))"
  by (induction ts arbitrary: c0) (simp_all add: incrementer_def split: statut.split)

lemma fold_incrementer_TERMINEE:
  "n_TERMINEE (fold (\<lambda>t c. incrementer (statut t) c) ts c0)
     = n_TERMINEE c0 + int (length (filter (\<lambda>t. statut t = TERMINEE) ts))"
  by (induction ts arbitrary: c0) (simp_all add: incrementer_def split: statut.split)

lemmas fold_incrementer =
  fold_incrementer_total fold_incrementer_A_FAIRE fold_incrementer_EN_COURS
  fold_incrementer_TERMINEE

lemma compterParStatut_champs:
  "total (compterParStatut m r) = int (length (filter (\<lambda>t. utilisateur_id t = r) (taches m)))"
  "n_A_FAIRE (compterParStatut m r)
     = int (length (filter (\<lambda>t. utilisateur_id t = r \<and> statut t = A_FAIRE) (taches m)))"
  "n_EN_COURS (compterParStatut m r)
     = int (length (filter (\<lambda>t. utilisateur_id t = r \<and> statut t = EN_COURS) (taches m)))"
  "n_TERMINEE (compterParStatut m r)
     = int (length (filter (\<lambda>t. utilisateur_id t = r \<and> statut t = TERMINEE) (taches m)))"
  by (simp_all add: compterParStatut_def Let_def fold_incrementer conj_commute)

lemma ou_defaut_non_nul: "d \<noteq> 0 \<Longrightarrow> ou_defaut x d \<noteq> 0"
  by (cases x) (simp_all add: ou_defaut_def)

lemma filtre_where_point:
  "filtre_where r \<lparr>o_page = pa, o_limit = li, o_statut = fs, o_priorite = fp, o_liste_id = fl\<rparr> t
     = (utilisateur_id t = r
        \<and> (vrai fs \<longrightarrow> Some (nom_statut (statut t)) = fs)
        \<and> (vrai fp \<longrightarrow> Some (nom_priorite (priorite t)) = fp)
        \<and> (\<forall>l. fl = Some l \<longrightarrow> liste_id t = Some l))"
  by (cases fl) (simp_all add: filtre_where_def)

lemma filtre_where_explicite:
  "filtre_where r \<lparr>o_page = pa, o_limit = li, o_statut = fs, o_priorite = fp, o_liste_id = fl\<rparr>
     = (\<lambda>t. utilisateur_id t = r
        \<and> (vrai fs \<longrightarrow> Some (nom_statut (statut t)) = fs)
        \<and> (vrai fp \<longrightarrow> Some (nom_priorite (priorite t)) = fp)
        \<and> (\<forall>l. fl = Some l \<longrightarrow> liste_id t = Some l))"
  by (rule ext) (rule filtre_where_point)

lemma listerTaches_reussit:
  assumes "1 \<le> ou_defaut (q_page q) defaultPage" and "1 \<le> ou_defaut (q_limit q) defaultPageLimit"
  shows "\<exists>rows c p. listerTaches r q m = (200, Succes (D_taches_page rows c p))"
proof (cases rule: listerTaches_cas [of r q m])
  case erreur
  have "0 \<le> (ou_defaut (q_page q) defaultPage - 1) * ou_defaut (q_limit q) defaultPageLimit"
    using assms by simp
  then show ?thesis using erreur(2) assms(2) by simp
next
  case (page rows count)
  then show ?thesis by blast
qed

text \<open>
  C9. In every answer of ListTasks the counters are those of all the tasks of the
  owner, whatever filters were supplied: the total and the number of tasks in each
  status. The pagination gives the page and the page size that were used (both at
  least 1), the number of the owner's tasks that match every supplied filter, and
  the number of pages, which is that number divided by the page size and rounded up.
\<close>

theorem C9_compteurs_pagination:
  assumes "listerTaches r q m = (200, Succes (D_taches_page rows c p))"
  shows "total c = int (length (filter (\<lambda>t. utilisateur_id t = r) (taches m)))
   \<and> n_A_FAIRE c
       = int (length (filter (\<lambda>t. utilisateur_id t = r \<and> statut t = A_FAIRE) (taches m)))
   \<and> n_EN_COURS c
       = int (length (filter (\<lambda>t. utilisateur_id t = r \<and> statut t = EN_COURS) (taches m)))
   \<and> n_TERMINEE c
       = int (length (filter (\<lambda>t. utilisateur_id t = r \<and> statut t = TERMINEE) (taches m)))
   \<and> page p = ou_defaut (q_page q) defaultPage \<and> 1 \<le> page p
   \<and> limit p = ou_defaut (q_limit q) defaultPageLimit \<and> 1 \<le> limit p
   \<and> pg_total p = int (length (filter
         (\<lambda>t. utilisateur_id t = r
             \<and> (vrai (q_statut q) \<longrightarrow> Some (nom_statut (statut t)) = q_statut q)
             \<and> (vrai (q_priorite q) \<longrightarrow> Some (nom_priorite (priorite t)) = q_priorite q)
             \<and> (\<forall>l. q_liste_id q = Some l \<longrightarrow> liste_id t = Some l)) (taches m)))
   \<and> totalPages p = \<lceil>real_of_int (pg_total p) / real_of_int (limit p)\<rceil>
   \<and> pg_total p \<le> totalPages p * limit p \<and> (totalPages p - 1) * limit p < pg_total p"
proof (cases rule: listerTaches_cas [of r q m])
  case erreur
  then show ?thesis using assms by simp
next
  case (page rows' count)
  have c: "c = compterParStatut m r"
    and p: "p = \<lparr>page = ou_defaut (q_page q) defaultPage,
             limit = ou_defaut (q_limit q) defaultPageLimit, pg_total = count,
             totalPages = plafond count (ou_defaut (q_limit q) defaultPageLimit)\<rparr>"
    using assms page(2) by simp_all
  note l = listerParUtilisateur_Some [OF page(1)]
  have "ou_defaut (q_limit q) defaultPageLimit \<noteq> 0"
    by (rule ou_defaut_non_nul) (simp add: defaultPageLimit_def)
  then have lm: "1 \<le> limit p" using l(3) p by simp
  have "0 \<le> (page p - 1) * limit p" using l(4) p by simp
  then have pg: "1 \<le> page p"
    using lm by (simp add: zero_le_mult_iff)
  have tot: "pg_total p = int (length (filter
         (\<lambda>t. utilisateur_id t = r
             \<and> (vrai (q_statut q) \<longrightarrow> Some (nom_statut (statut t)) = q_statut q)
             \<and> (vrai (q_priorite q) \<longrightarrow> Some (nom_priorite (priorite t)) = q_priorite q)
             \<and> (\<forall>l. q_liste_id q = Some l \<longrightarrow> liste_id t = Some l)) (taches m)))"
    using l(2) p by (simp add: filtre_where_explicite)
  have tp: "totalPages p = plafond (pg_total p) (limit p)" using p by simp
  have b: "pg_total p \<le> totalPages p * limit p" "(totalPages p - 1) * limit p < pg_total p"
    unfolding tp using plafond_bornes [of "limit p" "pg_total p"] lm by simp_all
  have ce: "totalPages p = \<lceil>real_of_int (pg_total p) / real_of_int (limit p)\<rceil>"
    unfolding tp by (simp add: plafond_def)
  have pp: "page p = ou_defaut (q_page q) defaultPage"
       "limit p = ou_defaut (q_limit q) defaultPageLimit"
    using p by simp_all
  show ?thesis
    unfolding c compterParStatut_champs using pp pg lm tot ce b by blast
qed

theorem C9_compteurs_pagination_witness:
  "listerTaches 1 (requete_vide\<lparr>q_statut := Some ''A_FAIRE'', q_limit := Some 1,
       q_page := Some 2\<rparr>) monde_exemple =
     (200, Succes (D_taches_page [(livre, None)]
        \<lparr>total = 4, n_A_FAIRE = 2, n_EN_COURS = 1, n_TERMINEE = 1\<rparr>
        \<lparr>page = 2, limit = 1, pg_total = 2, totalPages = 2\<rparr>))
   \<and> total \<lparr>total = 4, n_A_FAIRE = 2, n_EN_COURS = 1, n_TERMINEE = 1\<rparr>
       = int (length (filter (\<lambda>t. utilisateur_id t = 1) (taches monde_exemple)))"
proof -
  have e: "listerTaches 1 (requete_vide\<lparr>q_statut := Some ''A_FAIRE'', q_limit := Some 1,
       q_page := Some 2\<rparr>) monde_exemple =
     (200, Succes (D_taches_page [(livre, None)]
        \<lparr>total = 4, n_A_FAIRE = 2, n_EN_COURS = 1, n_TERMINEE = 1\<rparr>
        \<lparr>page = 2, limit = 1, pg_total = 2, totalPages = 2\<rparr>))"
    by (simp add: listerTaches_def listerParUtilisateur_def requete_vide_def ou_defaut_def
        defaultPage_def defaultPageLimit_def filtre_where_def vrai_def cle_tri_def
        compterParStatut_def incrementer_def plafond_div inclure_liste_def
        trouverParId_liste_def resume_def nom_statut_def exemple_defs)
  from e C9_compteurs_pagination [OF e, THEN conjunct1] show ?thesis by (rule conjI)
qed

section \<open>Search\<close>

lemma trim_vide: "(trim s = []) = list_all estBlanc s"
proof -
  have "(dropWhile estBlanc (rev (dropWhile estBlanc s)) = [])
          = (\<forall>c\<in>set (dropWhile estBlanc s). estBlanc c)"
    by (simp add: dropWhile_eq_Nil_conv)
  also have "\<dots> = (dropWhile estBlanc s = [])"
  proof (cases "dropWhile estBlanc s = []")
    case True
    show ?thesis unfolding True by simp
  next
    case False
    then have "\<not> estBlanc (hd (dropWhile estBlanc s))" by (rule hd_dropWhile)
    moreover have "hd (dropWhile estBlanc s) \<in> set (dropWhile estBlanc s)"
      using False by simp
    ultimately show ?thesis using False by blast
  qed
  also have "\<dots> = list_all estBlanc s"
    by (simp add: dropWhile_eq_Nil_conv list_all_iff)
  finally show ?thesis by (simp add: trim_def)
qed

lemma like_litteral:
  assumes "\<forall>c\<in>set k. c \<noteq> CHR ''%'' \<and> c \<noteq> CHR ''_'' \<and> c \<noteq> CHR 0x5C"
  shows "like (k @ ps) s = (\<exists>r. s = k @ r \<and> like ps r)"
  using assms
proof (induction k arbitrary: s)
  case Nil
  then show ?case by simp
next
  case (Cons c k)
  then have c: "c \<noteq> CHR ''%''" "c \<noteq> CHR ''_''" "c \<noteq> CHR 0x5C"
    and k: "\<forall>c\<in>set k. c \<noteq> CHR ''%'' \<and> c \<noteq> CHR ''_'' \<and> c \<noteq> CHR 0x5C"
    by simp_all
  show ?case
  proof (cases s)
    case Nil
    then show ?thesis using c by simp
  next
    case (Cons d ds)
    have "like ((c # k) @ ps) (d # ds) = (c = d \<and> like (k @ ps) ds)"
      using c by simp
    also have "\<dots> = (c = d \<and> (\<exists>r. ds = k @ r \<and> like ps r))"
      using Cons.IH [OF k, of ds] by simp
    also have "\<dots> = (\<exists>r. d # ds = (c # k) @ r \<and> like ps r)"
      by auto
    finally show ?thesis using Cons by simp
  qed
qed

lemma like_pourcent: "like (CHR ''%'' # ps) s = (\<exists>a b. s = a @ b \<and> like ps b)"
proof (induction s)
  case Nil
  then show ?case by simp
next
  case (Cons c cs)
  have "like (CHR ''%'' # ps) (c # cs) = (like ps (c # cs) \<or> like (CHR ''%'' # ps) cs)"
    by simp
  also have "\<dots> = (like ps (c # cs) \<or> (\<exists>a b. cs = a @ b \<and> like ps b))"
    using Cons.IH by simp
  also have "\<dots> = (\<exists>a b. c # cs = a @ b \<and> like ps b)"
  proof
    assume "like ps (c # cs) \<or> (\<exists>a b. cs = a @ b \<and> like ps b)"
    then show "\<exists>a b. c # cs = a @ b \<and> like ps b"
    proof
      assume "like ps (c # cs)"
      then have "c # cs = [] @ (c # cs) \<and> like ps (c # cs)" by simp
      then show ?thesis by blast
    next
      assume "\<exists>a b. cs = a @ b \<and> like ps b"
      then obtain a b where "cs = a @ b" "like ps b" by blast
      then have "c # cs = (c # a) @ b \<and> like ps b" by simp
      then show ?thesis by blast
    qed
  next
    assume "\<exists>a b. c # cs = a @ b \<and> like ps b"
    then obtain a b where ab: "c # cs = a @ b" "like ps b" by blast
    show "like ps (c # cs) \<or> (\<exists>a b. cs = a @ b \<and> like ps b)"
    proof (cases a)
      case Nil
      then show ?thesis using ab by simp
    next
      case (Cons x xs)
      then have "cs = xs @ b" using ab(1) by simp
      then show ?thesis using ab(2) by blast
    qed
  qed
  finally show ?case .
qed

lemma like_contient:
  assumes "\<forall>c\<in>set k. c \<noteq> CHR ''%'' \<and> c \<noteq> CHR ''_'' \<and> c \<noteq> CHR 0x5C"
  shows "like (CHR ''%'' # k @ [CHR ''%'']) s = sublist k s"
proof -
  have tout: "like [CHR ''%''] x" for x
    using like_pourcent [of "[]" x] by simp
  have "like (CHR ''%'' # k @ [CHR ''%'']) s
          = (\<exists>a b. s = a @ b \<and> like (k @ [CHR ''%'']) b)"
    by (rule like_pourcent)
  also have "\<dots> = (\<exists>a b. s = a @ b \<and> (\<exists>r. b = k @ r))"
    using like_litteral [OF assms, of "[CHR ''%'']"] tout by simp
  also have "\<dots> = sublist k s"
    by (auto simp: sublist_def)
  finally show ?thesis .
qed

lemma minuscule_pas_joker:
  "\<forall>c. c \<noteq> CHR ''%'' \<and> c \<noteq> CHR ''_'' \<and> c \<noteq> CHR 0x5C \<longrightarrow>
       minuscule c \<noteq> CHR ''%'' \<and> minuscule c \<noteq> CHR ''_'' \<and> minuscule c \<noteq> CHR 0x5C"
  by (simp add: minuscule_def majuscules_minuscules_def)

lemma minuscule_pourcent: "minuscule (CHR ''%'') = CHR ''%''"
  by (simp add: minuscule_def majuscules_minuscules_def)

lemma iLike_contient:
  assumes "casse (CHR ''%'') = CHR ''%''"
    and "\<forall>c\<in>set k. casse c \<noteq> CHR ''%'' \<and> casse c \<noteq> CHR ''_'' \<and> casse c \<noteq> CHR 0x5C"
  shows "iLike casse x (''%'' @ k @ ''%'') = sublist (map casse k) (map casse x)"
proof -
  have p: "map casse (''%'' @ k @ ''%'') = CHR ''%'' # map casse k @ [CHR ''%'']"
    using assms(1) by simp
  have "\<forall>c\<in>set (map casse k). c \<noteq> CHR ''%'' \<and> c \<noteq> CHR ''_'' \<and> c \<noteq> CHR 0x5C"
    using assms(2) by simp
  then show ?thesis
    unfolding iLike_def p by (rule like_contient)
qed

lemma rechercher_400:
  "(rechercher casse r q m = (400, Echec ParametreRechercheRequis))
     = (q = None \<or> (\<exists>s. q = Some s \<and> list_all estBlanc s))"
proof (cases q)
  case None
  then show ?thesis by (simp add: rechercher_def)
next
  case (Some s)
  have "(s = [] \<or> length (trim s) = 0) = list_all estBlanc s"
    using trim_vide [of s] by (cases s) auto
  then show ?thesis using Some by (simp add: rechercher_def)
qed

lemma rechercher_200:
  assumes "q = Some s" and "\<not> list_all estBlanc s"
  shows "rechercher casse r q m
           = (200, Succes (D_taches (rechercher_taches casse m r (trim s))))"
proof -
  have "\<not> (s = [] \<or> length (trim s) = 0)"
    using assms(2) trim_vide [of s] by (cases s) auto
  then show ?thesis using assms(1) by (simp add: rechercher_def)
qed

lemma rechercher_taches_contient:
  assumes "casse (CHR ''%'') = CHR ''%''"
    and "\<forall>c\<in>set k. casse c \<noteq> CHR ''%'' \<and> casse c \<noteq> CHR ''_'' \<and> casse c \<noteq> CHR 0x5C"
  shows "map fst (rechercher_taches casse m r k) =
           sort_key (\<lambda>t. - date_creation t)
             (filter (\<lambda>t. utilisateur_id t = r
                        \<and> (sublist (map casse k) (map casse (titre t))
                           \<or> (\<exists>d. description t = Some d
                                \<and> sublist (map casse k) (map casse d))))
                (taches m))"
proof -
  have p: "(utilisateur_id t = r
            \<and> (iLike casse (titre t) (''%'' @ k @ ''%'')
               \<or> (case description t of None \<Rightarrow> False
                  | Some d \<Rightarrow> iLike casse d (''%'' @ k @ ''%''))))
         = (utilisateur_id t = r
            \<and> (sublist (map casse k) (map casse (titre t))
               \<or> (\<exists>d. description t = Some d \<and> sublist (map casse k) (map casse d))))"
    for t
    unfolding iLike_contient [OF assms] by (cases "description t") simp_all
  show ?thesis
    unfolding rechercher_taches_def map_fst_inclure p ..
qed

lemma tri_creation_decroissante:
  "sorted_wrt (\<lambda>a b. date_creation b \<le> date_creation a)
     (sort_key (\<lambda>t. - date_creation t) ts)"
proof -
  have "sorted (map (\<lambda>t. - date_creation t) (sort_key (\<lambda>t. - date_creation t) ts))"
    by (rule sorted_sort_key)
  then have "sorted_wrt (\<lambda>a b. - date_creation a \<le> - date_creation b)
               (sort_key (\<lambda>t. - date_creation t) ts)"
    by (simp add: sorted_map)
  then show ?thesis by simp
qed

text \<open>
  C10, as amended. Search fails with 400 exactly when the keyword is undefined, empty or
  made of white space only. Otherwise the keyword is trimmed first. Take any case folding
  \<open>casse\<close> of the database that leaves the percent sign alone and maps no other
  character to a percent sign, an underscore or a backslash. When the trimmed keyword
  has no percent sign, underscore or backslash, the answer is 200 and holds exactly the
  owner's tasks whose folded title or folded description contains the folded trimmed
  keyword, each once, in order of descending creation time. The data of a search have
  the single key \<open>taches\<close>, where the data of ListTasks have \<open>taches\<close>, \<open>compteurs\<close>
  and \<open>pagination\<close>.
\<close>

theorem C10_rechercher:
  "((rechercher casse r q m = (400, Echec ParametreRechercheRequis))
      = (q = None \<or> (\<exists>s. q = Some s \<and> list_all estBlanc s)))
   \<and> (q = Some s \<and> \<not> list_all estBlanc s
      \<and> (\<forall>c\<in>set (trim s). c \<noteq> CHR ''%'' \<and> c \<noteq> CHR ''_'' \<and> c \<noteq> CHR 0x5C)
      \<and> casse (CHR ''%'') = CHR ''%''
      \<and> (\<forall>c. c \<noteq> CHR ''%'' \<and> c \<noteq> CHR ''_'' \<and> c \<noteq> CHR 0x5C \<longrightarrow>
             casse c \<noteq> CHR ''%'' \<and> casse c \<noteq> CHR ''_'' \<and> casse c \<noteq> CHR 0x5C) \<longrightarrow>
      (\<exists>rows. rechercher casse r q m = (200, Succes (D_taches rows))
         \<and> set (map fst rows) =
             {t \<in> set (taches m). utilisateur_id t = r
                \<and> (sublist (map casse (trim s)) (map casse (titre t))
                   \<or> (\<exists>d. description t = Some d
                        \<and> sublist (map casse (trim s)) (map casse d)))}
         \<and> length rows = length (filter
               (\<lambda>t. utilisateur_id t = r
                  \<and> (sublist (map casse (trim s)) (map casse (titre t))
                     \<or> (\<exists>d. description t = Some d
                          \<and> sublist (map casse (trim s)) (map casse d)))) (taches m))
         \<and> sorted_wrt (\<lambda>a b. date_creation b \<le> date_creation a) (map fst rows)))
   \<and> (\<forall>d. rechercher casse r q m = (200, Succes d) \<longrightarrow> cles d = [''taches''])
   \<and> (\<forall>d. listerTaches r' q' m' = (200, Succes d) \<longrightarrow>
         cles d = [''taches'', ''compteurs'', ''pagination''])"
proof (intro conjI impI allI)
  show "(rechercher casse r q m = (400, Echec ParametreRechercheRequis))
      = (q = None \<or> (\<exists>s. q = Some s \<and> list_all estBlanc s))"
    by (rule rechercher_400)
next
  assume a: "q = Some s \<and> \<not> list_all estBlanc s
      \<and> (\<forall>c\<in>set (trim s). c \<noteq> CHR ''%'' \<and> c \<noteq> CHR ''_'' \<and> c \<noteq> CHR 0x5C)
      \<and> casse (CHR ''%'') = CHR ''%''
      \<and> (\<forall>c. c \<noteq> CHR ''%'' \<and> c \<noteq> CHR ''_'' \<and> c \<noteq> CHR 0x5C \<longrightarrow>
             casse c \<noteq> CHR ''%'' \<and> casse c \<noteq> CHR ''_'' \<and> casse c \<noteq> CHR 0x5C)"
  let ?P = "\<lambda>t. utilisateur_id t = r
                  \<and> (sublist (map casse (trim s)) (map casse (titre t))
                     \<or> (\<exists>d. description t = Some d
                          \<and> sublist (map casse (trim s)) (map casse d)))"
  let ?rows = "rechercher_taches casse m r (trim s)"
  have pc: "casse (CHR ''%'') = CHR ''%''" using a by blast
  have k: "\<forall>c\<in>set (trim s).
             casse c \<noteq> CHR ''%'' \<and> casse c \<noteq> CHR ''_'' \<and> casse c \<noteq> CHR 0x5C"
    using a by blast
  have e: "rechercher casse r q m = (200, Succes (D_taches ?rows))"
    using a rechercher_200 [of q s casse r m] by blast
  have f: "map fst ?rows = sort_key (\<lambda>t. - date_creation t) (filter ?P (taches m))"
    by (rule rechercher_taches_contient [OF pc k])
  have 1: "set (map fst ?rows) = {t \<in> set (taches m). ?P t}"
    unfolding f by auto
  have "length (map fst ?rows) = length (filter ?P (taches m))"
    unfolding f by simp
  then have 2: "length ?rows = length (filter ?P (taches m))" by simp
  have 3: "sorted_wrt (\<lambda>a b. date_creation b \<le> date_creation a) (map fst ?rows)"
    unfolding f by (rule tri_creation_decroissante)
  show "\<exists>rows. rechercher casse r q m = (200, Succes (D_taches rows))
         \<and> set (map fst rows) = {t \<in> set (taches m). ?P t}
         \<and> length rows = length (filter ?P (taches m))
         \<and> sorted_wrt (\<lambda>a b. date_creation b \<le> date_creation a) (map fst rows)"
    using e 1 2 3 by blast
next
  fix d assume "rechercher casse r q m = (200, Succes d)"
  then show "cles d = [''taches'']"
    by (cases q) (auto simp: rechercher_def cles_def split: if_splits)
next
  fix d assume d: "listerTaches r' q' m' = (200, Succes d)"
  show "cles d = [''taches'', ''compteurs'', ''pagination'']"
  proof (cases rule: listerTaches_cas [of r' q' m'])
    case erreur
    then show ?thesis using d by simp
  next
    case (page rows count)
    then show ?thesis using d by (auto simp: cles_def)
  qed
qed

theorem C10_rechercher_witness:
  "rechercher minuscule 1 (Some ''   '') monde_exemple
     = (400, Echec ParametreRechercheRequis)
   \<and> (\<exists>rows. rechercher minuscule 1 (Some '' milk '') monde_exemple
                = (200, Succes (D_taches rows))
         \<and> set (map fst rows) =
             {t \<in> set (taches monde_exemple). utilisateur_id t = 1
                \<and> (sublist (map minuscule (trim '' milk '')) (map minuscule (titre t))
                   \<or> (\<exists>d. description t = Some d
                        \<and> sublist (map minuscule (trim '' milk '')) (map minuscule d)))}
         \<and> length rows = length (filter
               (\<lambda>t. utilisateur_id t = 1
                  \<and> (sublist (map minuscule (trim '' milk '')) (map minuscule (titre t))
                     \<or> (\<exists>d. description t = Some d
                          \<and> sublist (map minuscule (trim '' milk '')) (map minuscule d))))
               (taches monde_exemple))
         \<and> sorted_wrt (\<lambda>a b. date_creation b \<le> date_creation a) (map fst rows))"
proof -
  have b: "list_all estBlanc ''   ''" and n: "\<not> list_all estBlanc '' milk ''"
    by (simp_all add: estBlanc_def)
  have j: "\<forall>c\<in>set (trim '' milk ''). c \<noteq> CHR ''%'' \<and> c \<noteq> CHR ''_'' \<and> c \<noteq> CHR 0x5C"
    by (simp add: trim_def estBlanc_def)
  have 1: "rechercher minuscule 1 (Some ''   '') monde_exemple
             = (400, Echec ParametreRechercheRequis)"
    using b C10_rechercher [where casse = minuscule and r = 1 and q = "Some ''   ''"
        and m = monde_exemple, THEN conjunct1]
    by simp
  have 2: "\<exists>rows. rechercher minuscule 1 (Some '' milk '') monde_exemple
                = (200, Succes (D_taches rows))
         \<and> set (map fst rows) =
             {t \<in> set (taches monde_exemple). utilisateur_id t = 1
                \<and> (sublist (map minuscule (trim '' milk '')) (map minuscule (titre t))
                   \<or> (\<exists>d. description t = Some d
                        \<and> sublist (map minuscule (trim '' milk '')) (map minuscule d)))}
         \<and> length rows = length (filter
               (\<lambda>t. utilisateur_id t = 1
                  \<and> (sublist (map minuscule (trim '' milk '')) (map minuscule (titre t))
                     \<or> (\<exists>d. description t = Some d
                          \<and> sublist (map minuscule (trim '' milk '')) (map minuscule d))))
               (taches monde_exemple))
         \<and> sorted_wrt (\<lambda>a b. date_creation b \<le> date_creation a) (map fst rows)"
    by (rule C10_rechercher [where casse = minuscule and r = 1 and q = "Some '' milk ''"
          and m = monde_exemple and s = "'' milk ''", THEN conjunct2, THEN conjunct1, THEN mp])
      (intro conjI refl n j minuscule_pourcent minuscule_pas_joker)
  from 1 2 show ?thesis by (rule conjI)
qed

text \<open>
  The claim as stated fails on a keyword with white space around it: the search for
  \<open>milk\<close> between two spaces returns two tasks of Alice, and neither the title nor the
  description of either contains that keyword, spaces included, whatever the letter
  case.
\<close>

theorem C10_rechercher_counterexample:
  "rechercher minuscule 1 (Some '' milk '') monde_exemple
     = (200, Succes (D_taches [(appel, None), (lait, Some (resume travail))]))
   \<and> \<not> sublist (map minuscule '' milk '') (map minuscule (titre lait))
   \<and> description lait = None
   \<and> \<not> sublist (map minuscule '' milk '') (map minuscule (titre appel))
   \<and> \<not> sublist (map minuscule '' milk '') (map minuscule (the (description appel)))"
proof -
  have 1: "rechercher minuscule 1 (Some '' milk '') monde_exemple
     = (200, Succes (D_taches [(appel, None), (lait, Some (resume travail))]))"
    by (simp add: rechercher_def rechercher_taches_def trim_def estBlanc_def iLike_def
        minuscule_def majuscules_minuscules_def inclure_liste_def
        trouverParId_liste_def resume_def exemple_defs)
  have 2: "\<not> sublist (map minuscule '' milk '') (map minuscule (titre lait))"
    by code_simp
  have 3: "description lait = None" by (simp add: lait_def)
  have 4: "\<not> sublist (map minuscule '' milk '') (map minuscule (titre appel))"
    by code_simp
  have 5: "\<not> sublist (map minuscule '' milk '') (map minuscule (the (description appel)))"
    by code_simp
  from 1 2 3 4 5 show ?thesis by blast
qed

text \<open>
  A keyword with a pattern character is outside the theorem above: the percent sign
  of the keyword is a wildcard of the pattern, so the search for \<open>%\<close> returns every
  task of Alice, also the three that contain no percent sign.
\<close>

lemma rechercher_joker:
  "rechercher minuscule 1 (Some ''%'') monde_exemple
     = (200, Succes (D_taches [(livre, None), (appel, None), (loyer, Some (resume travail)),
          (lait, Some (resume travail))]))"
  by (simp add: rechercher_def rechercher_taches_def trim_def estBlanc_def iLike_def
      minuscule_def majuscules_minuscules_def inclure_liste_def
      trouverParId_liste_def resume_def exemple_defs)

text \<open>
  With the folding \<open>minuscule\<close> a keyword finds a text that differs from it in the case
  of an accented letter: U+00E9 in the keyword, U+00C9 in the title.
\<close>

lemma iLike_accent:
  "iLike minuscule (CHR 0xC9 # ''cole'') (''%'' @ (CHR 0xE9 # ''cole'') @ ''%'')"
  by (simp add: iLike_def minuscule_def majuscules_minuscules_def)

end
